theory Spec2Isabelle
  imports Main "HOL-Library.Word"
begin

unbundle bit_operations_syntax

section \<open>The superblock code of AEFS (corefs/superblock.c)\<close>

text \<open>
  A shallow embedding of \<^verbatim>\<open>src/corefs/superblock.c\<close>. The headers the file includes
  (\<^verbatim>\<open>sysdep.h\<close>, \<^verbatim>\<open>superblock.h\<close>, \<^verbatim>\<open>sha.h\<close>) are not part of the sources at hand, so
  the constants, the struct layouts and the collaborating functions they declare are
  parameters of the model, collected in the record \<open>extern\<close> below. Every function of
  the model takes that record as its first argument.
\<close>

subsection \<open>Result codes\<close>

text \<open>
  The enumerations \<^verbatim>\<open>CoreResult\<close> and \<^verbatim>\<open>CipherResult\<close>: the codes that superblock.c names,
  and one more constructor each for the codes it does not name (a collaborator may
  return them). \<^verbatim>\<open>if (cr)\<close> in the source is \<open>cr \<noteq> CORERC_OK\<close> here.
\<close>

datatype CoreResult =
    CORERC_OK
  | CORERC_NOT_ENOUGH_MEMORY
  | CORERC_UNKNOWN_CIPHER
  | CORERC_MISC_CIPHER
  | CORERC_STORAGE
  | CORERC_INVALID_PARAMETER
  | CORERC_READ_ONLY
  | CORERC_BAD_SUPERBLOCK
  | CORERC_BAD_VERSION
  | CORERC_OTHER nat

datatype CipherResult =
    CIPHERRC_OK
  | CIPHERRC_NOT_ENOUGH_MEMORY
  | CIPHERRC_UNKNOWN_CIPHER
  | CIPHERRC_OTHER nat

fun cipherResultToCore :: "CipherResult \<Rightarrow> CoreResult" where
  "cipherResultToCore CIPHERRC_OK = CORERC_OK"
| "cipherResultToCore CIPHERRC_NOT_ENOUGH_MEMORY = CORERC_NOT_ENOUGH_MEMORY"
| "cipherResultToCore CIPHERRC_UNKNOWN_CIPHER = CORERC_UNKNOWN_CIPHER"
| "cipherResultToCore (CIPHERRC_OTHER n) = CORERC_MISC_CIPHER"

subsection \<open>Bytes, C strings and buffers\<close>

type_synonym octet = "8 word"

text \<open>
  A \<^verbatim>\<open>char *\<close> argument is a \<open>string\<close>: the characters before the terminating NUL, so
  \<^verbatim>\<open>strlen\<close> is \<open>length\<close>. A byte array is an \<open>octet list\<close> holding the whole array.
\<close>

definition octets :: "string \<Rightarrow> octet list" where
  "octets s = map of_char s"

text \<open>The C string held in a byte array: the bytes before the first NUL.\<close>

definition cstring :: "octet list \<Rightarrow> octet list" where
  "cstring buf = takeWhile (\<lambda>b. b \<noteq> 0) buf"

text \<open>\<open>bytes_at off n buf\<close> reads the \<open>n\<close> bytes at offset \<open>off\<close>; \<open>poke off bs buf\<close>
  writes \<open>bs\<close> there.\<close>

definition bytes_at :: "nat \<Rightarrow> nat \<Rightarrow> 'a list \<Rightarrow> 'a list" where
  "bytes_at off n buf = take n (drop off buf)"

definition poke :: "nat \<Rightarrow> 'a list \<Rightarrow> 'a list \<Rightarrow> 'a list" where
  "poke off bs buf = take off buf @ bs @ drop (off + length bs) buf"

subsection \<open>coreHashKey\<close>

text \<open>
  \<^verbatim>\<open>SHA_DIGESTSIZE\<close> comes from sha.h; the comment above \<^verbatim>\<open>coreHashKey\<close> gives its value
  ("at most the first 20 bytes (the SHA digest length)").
\<close>

definition SHA_DIGESTSIZE :: nat where
  "SHA_DIGESTSIZE = 20"

text \<open>
  The inner loop
  \<^verbatim>\<open>for (i = 0; i < SHA_DIGESTSIZE; i++) { pabKey[iPos++] ^= digest[i]; if (iPos == cbKey) iPos = 0; }\<close>
  over the digest bytes. The buffer argument is the whole array that \<^verbatim>\<open>pabKey\<close> points
  to; an access outside it is undefined behaviour in C and \<open>None\<close> here.
\<close>

fun xorDigest :: "octet list \<Rightarrow> octet list \<Rightarrow> nat \<Rightarrow> int \<Rightarrow> (octet list \<times> nat) option" where
  "xorDigest [] pabKey iPos cbKey = Some (pabKey, iPos)"
| "xorDigest (d # digest) pabKey iPos cbKey =
     (if iPos < length pabKey
      then xorDigest digest (pabKey[iPos := pabKey ! iPos XOR d])
             (if int (Suc iPos) = cbKey then 0 else Suc iPos) cbKey
      else None)"

text \<open>
  The outer loop \<^verbatim>\<open>while (cbLeft > 0)\<close>. \<open>sha\<close> is the digest of a message
  (\<^verbatim>\<open>sha_init\<close>, two \<^verbatim>\<open>sha_update\<close>, \<^verbatim>\<open>sha_final\<close>, \<^verbatim>\<open>sha_digest\<close>); the first update reads
  \<open>cbKey\<close> bytes of the buffer, the second \<open>cbAdd\<close> characters of the key phrase.
\<close>

function hashChunks ::
  "(octet list \<Rightarrow> octet list) \<Rightarrow> string \<Rightarrow> octet list \<Rightarrow> nat \<Rightarrow> int \<Rightarrow> octet list option" where
  "hashChunks sha pszKey pabKey iPos cbKey =
     (if pszKey = [] then Some pabKey
      else
        let cbAdd = (if length pszKey \<ge> SHA_DIGESTSIZE then SHA_DIGESTSIZE else length pszKey);
            digest = sha (take (nat cbKey) pabKey @ octets (take cbAdd pszKey))
        in case xorDigest (take SHA_DIGESTSIZE digest) pabKey iPos cbKey of
             None \<Rightarrow> None
           | Some (pabKey', iPos') \<Rightarrow> hashChunks sha (drop cbAdd pszKey) pabKey' iPos' cbKey)"
  by pat_completeness auto
termination
  by (relation "measure (\<lambda>(sha, pszKey, pabKey, iPos, cbKey). length pszKey)")
     (auto simp: SHA_DIGESTSIZE_def)

declare hashChunks.simps [simp del]

text \<open>
  \<^verbatim>\<open>coreHashKey(pszKey, pabKey, cbKey)\<close>. \<^verbatim>\<open>memset(pabKey, 0, cbKey)\<close> takes \<open>cbKey\<close> as a
  \<^verbatim>\<open>size_t\<close>: a negative \<open>cbKey\<close>, or one beyond the array, writes outside the array
  (\<open>None\<close>). The result is the code returned and the array afterwards.
\<close>

definition coreHashKey ::
  "(octet list \<Rightarrow> octet list) \<Rightarrow> string \<Rightarrow> octet list \<Rightarrow> int \<Rightarrow> (CoreResult \<times> octet list) option" where
  "coreHashKey sha pszKey pabKey cbKey =
     (if cbKey < 0 \<or> int (length pabKey) < cbKey then None
      else
        case hashChunks sha pszKey
               (replicate (nat cbKey) 0 @ drop (nat cbKey) pabKey) 0 cbKey of
          None \<Rightarrow> None
        | Some pabKey' \<Rightarrow> Some (CORERC_OK, pabKey'))"

subsection \<open>The key derivation as the specification words it\<close>

text \<open>
  The reference algorithm, following the specification and not the code: the key starts
  as \<open>L\<close> zero bytes; the passphrase is cut into chunks of at most \<open>D\<close> bytes; for
  each chunk the digest of (key so far, then the chunk) is computed and digest byte \<open>j\<close>
  is XORed into key position \<open>(p + j) mod L\<close>, where \<open>p\<close> is where the previous chunk
  ended.
\<close>

function spec_chunks :: "string \<Rightarrow> string list" where
  "spec_chunks s =
     (if s = [] then [] else take SHA_DIGESTSIZE s # spec_chunks (drop SHA_DIGESTSIZE s))"
  by pat_completeness auto
termination
  by (relation "measure length") (auto simp: SHA_DIGESTSIZE_def)

declare spec_chunks.simps [simp del]

definition spec_xor_cyclic :: "octet list \<Rightarrow> nat \<Rightarrow> octet list \<Rightarrow> octet list" where
  "spec_xor_cyclic key p digest =
     fold (\<lambda>(j, d) k. k[(p + j) mod length key := k ! ((p + j) mod length key) XOR d])
       (enumerate 0 digest) key"

definition spec_absorb ::
  "(octet list \<Rightarrow> octet list) \<Rightarrow> string \<Rightarrow> octet list \<times> nat \<Rightarrow> octet list \<times> nat" where
  "spec_absorb sha chunk = (\<lambda>(key, p).
     (spec_xor_cyclic key p (sha (key @ octets chunk)),
      (p + SHA_DIGESTSIZE) mod length key))"

definition spec_deriveKey :: "(octet list \<Rightarrow> octet list) \<Rightarrow> string \<Rightarrow> nat \<Rightarrow> octet list" where
  "spec_deriveKey sha passphrase L =
     fst (fold (spec_absorb sha) (spec_chunks passphrase) (replicate L 0, 0))"

subsection \<open>Data structures\<close>

text \<open>
  The structs are declared in headers that are not at hand; each record has the fields
  that superblock.c reads or writes. \<open>pKeyData\<close> stands for the rest of \<^verbatim>\<open>Key\<close> (the
  cipher's key schedule), which superblock.c never looks at.
\<close>

record Cipher =
  pszID :: string

record Key =
  pCipher :: Cipher
  cbKey :: int
  cbBlock :: int
  pKeyData :: "octet list"

record CryptedVolumeParms =
  flCryptoFlags :: "32 word"
  fReadOnly :: bool

record CryptedSectorData =
  sector_random :: "octet list"
  payload :: "octet list"

text \<open>
  \<^verbatim>\<open>SuperBlock\<close>: the integer fields hold the values that \<^verbatim>\<open>bytesToInt32\<close> returns, the two
  strings are the whole arrays \<^verbatim>\<open>szLabel\<close> and \<^verbatim>\<open>szDescription\<close>. \<open>'vol\<close> is the type of
  \<^verbatim>\<open>CryptedVolume\<close>.
\<close>

record 'vol SuperBlock =
  pszBasePath :: string
  pKey :: Key
  pVolume :: 'vol
  magic :: int
  version :: int
  flFlags :: int
  idRoot :: int
  szLabel :: "octet list"
  szDescription :: "octet list"

subsection \<open>What the missing headers declare\<close>

text \<open>
  The macros, the sizes of the struct members and the collaborating functions.
  \<open>LABEL_SIZE\<close> and \<open>DESCRIPTION_SIZE\<close> are \<^verbatim>\<open>sizeof(pSuperBlock->szLabel)\<close> and
  \<^verbatim>\<open>sizeof(pSuperBlock->szDescription)\<close>, \<open>RANDOM_SIZE\<close> is \<^verbatim>\<open>sizeof(sector.random)\<close>,
  \<open>PAYLOAD_SIZE\<close> is \<^verbatim>\<open>sizeof(sector.payload)\<close>. \<^verbatim>\<open>SuperBlock2OnDisk\<close> is four 4-byte
  integers followed by the two strings, as superblock.c uses it. \<open>sha\<close> is the digest of
  a message. \<open>cryptCreateKey\<close> returns its result code and what it leaves in
  \<^verbatim>\<open>*ppKey\<close>; \<open>coreAccessVolume\<close> likewise for \<^verbatim>\<open>*ppVolume\<close>. \<open>uninit\<close> is the contents of
  the block that \<^verbatim>\<open>sysAllocSecureMem\<close> hands out, before anything is stored in it.
\<close>

record 'vol extern =
  SUPERBLOCK1_NAME :: string
  SUPERBLOCK2_NAME :: string
  MAX_VOLUME_BASE_PATH_NAME :: nat
  MAX_KEY_SIZE :: nat
  SECTOR_SIZE :: nat
  RANDOM_SIZE :: nat
  PAYLOAD_SIZE :: nat
  LABEL_SIZE :: nat
  DESCRIPTION_SIZE :: nat
  SUPERBLOCK2_MAGIC :: int
  SBV_CURRENT :: int
  CCRYPT_USE_CBC :: "32 word"
  CWS_NOWRITE_SUPERBLOCK1 :: "32 word"
  sha :: "octet list \<Rightarrow> octet list"
  bytesToInt32 :: "octet list \<Rightarrow> int"
  int32ToBytes :: "int \<Rightarrow> octet list"
  cryptCreateKey :: "Cipher \<Rightarrow> int \<Rightarrow> int \<Rightarrow> octet list \<Rightarrow> CipherResult \<times> Key"
  coreDecryptSectorData :: "octet list \<Rightarrow> Key \<Rightarrow> 32 word \<Rightarrow> CoreResult \<times> CryptedSectorData"
  coreEncryptSectorData :: "CryptedSectorData \<Rightarrow> Key \<Rightarrow> 32 word \<Rightarrow> octet list"
  coreAccessVolume :: "string \<Rightarrow> Key \<Rightarrow> CryptedVolumeParms \<Rightarrow> CoreResult \<times> 'vol"
  coreQueryVolumeParms :: "'vol \<Rightarrow> CryptedVolumeParms"
  uninit :: "'vol SuperBlock"

text \<open>The size of \<^verbatim>\<open>SuperBlock2OnDisk\<close>, and the offsets of its two strings.\<close>

definition label_offset :: nat where
  "label_offset = 16"

definition description_offset :: "'vol extern \<Rightarrow> nat" where
  "description_offset env = label_offset + LABEL_SIZE env"

definition sizeof_SuperBlock2OnDisk :: "'vol extern \<Rightarrow> nat" where
  "sizeof_SuperBlock2OnDisk env = description_offset env + DESCRIPTION_SIZE env"

subsection \<open>The world outside: files, failing calls, secure memory, random bits\<close>

text \<open>
  \<open>files\<close> maps a file name to the file's bytes. \<open>faults\<close> lists, in the order the
  calls are made, whether each call that can fail for a reason outside the program
  (\<^verbatim>\<open>sysAllocSecureMem\<close>, \<^verbatim>\<open>fopen\<close>, \<^verbatim>\<open>fread\<close>, \<^verbatim>\<open>fprintf\<close>, \<^verbatim>\<open>fwrite\<close>, \<^verbatim>\<open>fclose\<close>) fails;
  once the list is used up, calls succeed. \<open>secure_blocks\<close> counts the blocks of
  secure memory not yet freed. \<open>entropy\<close> is the stream of bytes that
  \<^verbatim>\<open>sysGetRandomBits\<close> draws from, \<open>entropy_pos\<close> how many it has drawn.
\<close>

record world =
  files :: "string \<rightharpoonup> octet list"
  faults :: "bool list"
  secure_blocks :: nat
  entropy :: "nat \<Rightarrow> octet"
  entropy_pos :: nat

definition pop_fault :: "world \<Rightarrow> bool \<times> world" where
  "pop_fault w = (case faults w of [] \<Rightarrow> (False, w) | f # fs \<Rightarrow> (f, w\<lparr>faults := fs\<rparr>))"

text \<open>\<^verbatim>\<open>sysAllocSecureMem\<close>: \<open>True\<close> when a block was handed out.\<close>

definition sysAllocSecureMem :: "world \<Rightarrow> bool \<times> world" where
  "sysAllocSecureMem w =
     (let (fail, w1) = pop_fault w
      in if fail then (False, w1) else (True, w1\<lparr>secure_blocks := Suc (secure_blocks w1)\<rparr>))"

definition sysFreeSecureMem :: "world \<Rightarrow> world" where
  "sysFreeSecureMem w = w\<lparr>secure_blocks := secure_blocks w - 1\<rparr>"

primrec draw :: "nat \<Rightarrow> (nat \<Rightarrow> octet) \<Rightarrow> nat \<Rightarrow> octet list" where
  "draw 0 src pos = []"
| "draw (Suc n) src pos = src pos # draw n src (Suc pos)"

text \<open>\<^verbatim>\<open>sysGetRandomBits(bits, dst)\<close>: \<open>bits / 8\<close> bytes of the stream.\<close>

definition sysGetRandomBits :: "nat \<Rightarrow> world \<Rightarrow> octet list \<times> world" where
  "sysGetRandomBits bits w =
     (draw (bits div 8) (entropy w) (entropy_pos w),
      w\<lparr>entropy_pos := entropy_pos w + bits div 8\<rparr>)"

text \<open>
  \<^verbatim>\<open>fopen(name, "r")\<close> and \<^verbatim>\<open>fopen(name, "rb")\<close>: the stream is the unread rest of the
  file; \<open>None\<close> is the null pointer (the call failed, or there is no such file).
\<close>

definition fopen_r :: "string \<Rightarrow> world \<Rightarrow> octet list option \<times> world" where
  "fopen_r name w = (let (fail, w1) = pop_fault w in if fail then (None, w1) else (files w1 name, w1))"

text \<open>
  \<^verbatim>\<open>fopen(name, "w+")\<close> and \<^verbatim>\<open>fopen(name, "w+b")\<close>: the file is created or truncated; a stream
  open for writing is known by its file name. \<open>False\<close> is the null pointer.
\<close>

definition fopen_w :: "string \<Rightarrow> world \<Rightarrow> bool \<times> world" where
  "fopen_w name w =
     (let (fail, w1) = pop_fault w
      in if fail then (False, w1) else (True, w1\<lparr>files := (files w1)(name \<mapsto> [])\<rparr>))"

text \<open>\<^verbatim>\<open>fclose\<close>: \<open>True\<close> when it returns \<^verbatim>\<open>EOF\<close>.\<close>

definition fclose :: "world \<Rightarrow> bool \<times> world" where
  "fclose w = pop_fault w"

text \<open>
  \<^verbatim>\<open>fprintf\<close> and \<^verbatim>\<open>fwrite(p, size, 1, file)\<close> append the bytes to the file; \<open>True\<close> when
  the call succeeded (for \<^verbatim>\<open>fprintf\<close>: did not return \<^verbatim>\<open>EOF\<close>; for \<^verbatim>\<open>fwrite\<close>: returned 1).
\<close>

definition fput :: "string \<Rightarrow> octet list \<Rightarrow> world \<Rightarrow> bool \<times> world" where
  "fput name bs w =
     (let (fail, w1) = pop_fault w
      in if fail then (False, w1)
         else (True, w1\<lparr>files := (files w1)(name \<mapsto> (case files w1 name of None \<Rightarrow> bs | Some old \<Rightarrow> old @ bs))\<rparr>))"

text \<open>
  \<^verbatim>\<open>fread(buf, size, 1, file)\<close>: one item of \<open>size\<close> bytes, or \<open>None\<close> when fewer than one
  item was read (the call failed, or the file is shorter).
\<close>

definition fread_item :: "nat \<Rightarrow> octet list \<Rightarrow> world \<Rightarrow> octet list option \<times> world" where
  "fread_item sz file w =
     (let (fail, w1) = pop_fault w
      in if fail \<or> length file < sz then (None, w1) else (Some (take sz file), w1))"

text \<open>The characters of a file opened as text.\<close>

definition text_of :: "octet list \<Rightarrow> string" where
  "text_of bs = map (\<lambda>b. char_of (unat b)) bs"

text \<open>
  \<^verbatim>\<open>fgets(szLine, n, file)\<close>: at most \<open>n - 1\<close> characters, up to and including the first
  newline; the line and the unread rest, or \<open>None\<close> at the end of the file. (A read
  error ends the loop of \<^verbatim>\<open>readSuperBlock1\<close> as the end of the file does; the model has
  it as a shorter file.)
\<close>

definition fgets :: "nat \<Rightarrow> string \<Rightarrow> (string \<times> string) option" where
  "fgets n file =
     (if file = [] then None
      else
        let window = take (n - 1) file;
            l = takeWhile (\<lambda>c. c \<noteq> CHR 0x0A) window
        in if length l < length window
           then Some (l @ [CHR 0x0A], drop (Suc (length l)) file)
           else Some (l, drop (length l) file))"

subsection \<open>The two sscanf calls of readSuperBlock1\<close>

text \<open>
  A value stored into an \<^verbatim>\<open>int\<close>. The model's integers are unbounded; where the code
  stores a number that a 32-bit \<^verbatim>\<open>int\<close> cannot hold (the C standard leaves that
  undefined), the model keeps the low 32 bits in two's complement, as the usual compilers
  and C libraries do.
\<close>

definition int32 :: "int \<Rightarrow> int" where
  "int32 i = sint (word_of_int i :: 32 word)"

definition isspace :: "char \<Rightarrow> bool" where
  "isspace c \<longleftrightarrow>
     c = CHR '' '' \<or> c = CHR 0x09 \<or> c = CHR 0x0A \<or> c = CHR 0x0B \<or> c = CHR 0x0C \<or> c = CHR 0x0D"

definition isdigit :: "char \<Rightarrow> bool" where
  "isdigit c \<longleftrightarrow> 48 \<le> (of_char c :: nat) \<and> (of_char c :: nat) \<le> 57"

definition decimal :: "string \<Rightarrow> int" where
  "decimal ds = foldl (\<lambda>a c. 10 * a + (int (of_char c) - 48)) 0 ds"

text \<open>
  The directive \<^verbatim>\<open>%d\<close>: white space is skipped, then an optional sign and at least one
  digit are read. The result is the number as the \<^verbatim>\<open>int\<close> variable holds it (\<open>int32\<close>) and
  the unread rest, or \<open>None\<close> when no number stands there.
\<close>

definition scan_d :: "string \<Rightarrow> (int \<times> string) option" where
  "scan_d s =
     (let s1 = dropWhile isspace s;
          neg = (s1 \<noteq> [] \<and> hd s1 = CHR ''-'');
          s2 = (if s1 \<noteq> [] \<and> (hd s1 = CHR ''-'' \<or> hd s1 = CHR ''+'') then tl s1 else s1);
          ds = takeWhile isdigit s2
      in if ds = [] then None
         else Some (int32 (if neg then - decimal ds else decimal ds), drop (length ds) s2))"

text \<open>
  \<^verbatim>\<open>sscanf(szLine, "%[^:]: %s\n", szName, szValue)\<close>: the value returned, and what
  \<^verbatim>\<open>szName\<close> and \<^verbatim>\<open>szValue\<close> were assigned (\<open>[]\<close> for one that was not assigned; the
  caller reads them only when the value returned is 2). \<^verbatim>\<open>%[^:]\<close> takes the characters
  before the first colon, at least one; the colon must follow; white space is skipped;
  \<^verbatim>\<open>%s\<close> takes the characters up to the next white space, at least one.
\<close>

definition sscanf_name_value :: "string \<Rightarrow> int \<times> string \<times> string" where
  "sscanf_name_value szLine =
     (if szLine = [] then (- 1, [], [])
      else
        let szName = takeWhile (\<lambda>c. c \<noteq> CHR '':'') szLine;
            rest = drop (length szName) szLine
        in if szName = [] then (0, [], [])
           else if rest = [] then (1, szName, [])
           else
             let szValue = takeWhile (\<lambda>c. \<not> isspace c) (dropWhile isspace (tl rest))
             in if szValue = [] then (1, szName, []) else (2, szName, szValue))"

text \<open>
  \<^verbatim>\<open>sscanf(szValue, "%63[^-]-%d-%d", szCipher, &cbKey, &cbBlock)\<close>: the value returned and
  the three variables afterwards. sscanf stores each item as soon as it has converted
  it, so a call that returns less than 3 has still overwritten the variables of the
  items it converted.
\<close>

definition sscanf_cipher :: "string \<Rightarrow> string \<times> int \<times> int \<Rightarrow> int \<times> string \<times> int \<times> int" where
  "sscanf_cipher szValue vars =
     (let (cipher0, key0, block0) = vars;
          name = takeWhile (\<lambda>c. c \<noteq> CHR ''-'') (take 63 szValue);
          r1 = drop (length name) szValue
      in if szValue = [] then (- 1, cipher0, key0, block0)
         else if name = [] then (0, cipher0, key0, block0)
         else if r1 = [] \<or> hd r1 \<noteq> CHR ''-'' then (1, name, key0, block0)
         else
           (case scan_d (tl r1) of
              None \<Rightarrow> (1, name, key0, block0)
            | Some (k, r2) \<Rightarrow>
                (if r2 = [] \<or> hd r2 \<noteq> CHR ''-'' then (2, name, k, block0)
                 else
                   (case scan_d (tl r2) of
                      None \<Rightarrow> (2, name, k, block0)
                    | Some (b, r3) \<Rightarrow> (3, name, k, b)))))"

text \<open>The division of C, which truncates towards zero.\<close>

definition c_div :: "int \<Rightarrow> int \<Rightarrow> int" where
  "c_div a b = (if (a < 0) = (b < 0) then \<bar>a\<bar> div \<bar>b\<bar> else - (\<bar>a\<bar> div \<bar>b\<bar>))"

subsection \<open>readSuperBlock1\<close>

text \<open>The local variables that the loop over the lines updates, and \<^verbatim>\<open>*pParms\<close>.\<close>

record hdr =
  szCipher :: string
  hdr_cbKey :: int
  hdr_cbBlock :: int
  hdr_parms :: CryptedVolumeParms

text \<open>A line as the C string that sscanf sees: it ends at the first NUL.\<close>

definition c_str :: "string \<Rightarrow> string" where
  "c_str s = takeWhile (\<lambda>c. c \<noteq> CHR 0x00) s"

text \<open>The body of the loop \<^verbatim>\<open>while (fgets(szLine, sizeof(szLine), file))\<close>.\<close>

definition readSuperBlock1_line :: "'vol extern \<Rightarrow> string \<Rightarrow> hdr \<Rightarrow> hdr" where
  "readSuperBlock1_line env szLine h =
     (let (n, szName, szValue) = sscanf_name_value (c_str szLine)
      in if n \<noteq> 2 then h
         else if szName = ''cipher'' then
           (let (m, c, k, b) = sscanf_cipher szValue (szCipher h, hdr_cbKey h, hdr_cbBlock h);
                h1 = h\<lparr>szCipher := c, hdr_cbKey := k, hdr_cbBlock := b\<rparr>
            in if m \<noteq> 3 then h1
               else h1\<lparr>hdr_cbBlock := c_div b 8, hdr_cbKey := c_div k 8\<rparr>)
         else if szName = ''use-cbc'' then
           (if szValue = ''1''
            then h\<lparr>hdr_parms := (hdr_parms h)
                   \<lparr>flCryptoFlags := flCryptoFlags (hdr_parms h) OR CCRYPT_USE_CBC env\<rparr>\<rparr>
            else h\<lparr>hdr_parms := (hdr_parms h)
                   \<lparr>flCryptoFlags := flCryptoFlags (hdr_parms h) AND NOT (CCRYPT_USE_CBC env)\<rparr>\<rparr>)
         else h)"

lemma fgets_shorter: "fgets n f = Some (szLine, rest) \<Longrightarrow> 1 < n \<Longrightarrow> length rest < length f"
  by (cases f) (auto simp: fgets_def Let_def split: if_splits)

function readSuperBlock1_lines :: "'vol extern \<Rightarrow> string \<Rightarrow> hdr \<Rightarrow> hdr" where
  "readSuperBlock1_lines env file h =
     (case fgets 256 file of
        None \<Rightarrow> h
      | Some (szLine, rest) \<Rightarrow> readSuperBlock1_lines env rest (readSuperBlock1_line env szLine h))"
  by pat_completeness auto
termination
  by (relation "measure (\<lambda>(env, file, h). length file)") (auto dest: fgets_shorter)

declare readSuperBlock1_lines.simps [simp del]

text \<open>
  The loop \<^verbatim>\<open>while (*papCipher)\<close>: the null-terminated array is a list, the result is the
  first entry whose \<^verbatim>\<open>pszID\<close> equals \<^verbatim>\<open>szCipher\<close>, or \<open>None\<close> when the loop reaches the null.
\<close>

fun findCipher :: "Cipher list \<Rightarrow> string \<Rightarrow> Cipher option" where
  "findCipher [] name = None"
| "findCipher (c # papCipher) name =
     (if pszID c = name then Some c else findCipher papCipher name)"

text \<open>
  \<^verbatim>\<open>readSuperBlock1\<close> returns its result code, \<^verbatim>\<open>*pSuperBlock\<close>, \<^verbatim>\<open>*pParms\<close> and the world as
  it leaves them; \<open>None\<close> when \<^verbatim>\<open>coreHashKey\<close> writes outside \<^verbatim>\<open>abKey\<close>. \<^verbatim>\<open>abKey\<close> is not
  initialised in C; the model starts it as zeros (\<^verbatim>\<open>coreHashKey\<close> clears the bytes it
  uses first), and clearing it again after \<^verbatim>\<open>cryptCreateKey\<close> changes nothing that the
  function returns. \<^verbatim>\<open>sizeof(szFileName)\<close> is \<^verbatim>\<open>MAX_VOLUME_BASE_PATH_NAME + 128\<close>.
\<close>

definition readSuperBlock1 ::
  "'vol extern \<Rightarrow> 'vol SuperBlock \<Rightarrow> string \<Rightarrow> CryptedVolumeParms \<Rightarrow> Cipher list \<Rightarrow> world \<Rightarrow>
   (CoreResult \<times> 'vol SuperBlock \<times> CryptedVolumeParms \<times> world) option" where
  "readSuperBlock1 env pSuperBlock pszKey pParms papCipher w =
     (if length (pszBasePath pSuperBlock) + length (SUPERBLOCK1_NAME env)
           \<ge> MAX_VOLUME_BASE_PATH_NAME env + 128
      then Some (CORERC_INVALID_PARAMETER, pSuperBlock, pParms, w)
      else
        case fopen_r (pszBasePath pSuperBlock @ SUPERBLOCK1_NAME env) w of
          (None, w1) \<Rightarrow> Some (CORERC_STORAGE, pSuperBlock, pParms, w1)
        | (Some file, w1) \<Rightarrow>
            let h = readSuperBlock1_lines env (text_of file)
                      \<lparr>szCipher = [], hdr_cbKey = 0, hdr_cbBlock = 0, hdr_parms = pParms\<rparr>;
                (eof, w2) = fclose w1
            in if eof then Some (CORERC_STORAGE, pSuperBlock, hdr_parms h, w2)
               else
                 (case findCipher papCipher (szCipher h) of
                   None \<Rightarrow> Some (CORERC_UNKNOWN_CIPHER, pSuperBlock, hdr_parms h, w2)
                 | Some cipher \<Rightarrow>
                     (case coreHashKey (sha env) pszKey
                             (replicate (MAX_KEY_SIZE env) 0) (hdr_cbKey h) of
                        None \<Rightarrow> None
                      | Some (cr, abKey) \<Rightarrow>
                          if cr \<noteq> CORERC_OK then Some (cr, pSuperBlock, hdr_parms h, w2)
                          else
                            let (cr2, key) =
                                  cryptCreateKey env cipher (hdr_cbBlock h) (hdr_cbKey h) abKey;
                                pSuperBlock' = pSuperBlock\<lparr>pKey := key\<rparr>
                            in if cr2 \<noteq> CIPHERRC_OK
                               then Some (cipherResultToCore cr2, pSuperBlock', hdr_parms h, w2)
                               else Some (CORERC_OK, pSuperBlock', hdr_parms h, w2))))"

subsection \<open>readSuperBlock2 and createVolume\<close>

text \<open>
  The fields of \<^verbatim>\<open>SuperBlock2OnDisk\<close> are read out of \<^verbatim>\<open>sector.payload\<close> at their offsets.
  \<^verbatim>\<open>szLabel[sizeof(szLabel) - 1] = 0\<close> is the list update at \<open>LABEL_SIZE - 1\<close>.
\<close>

definition readSuperBlock2 ::
  "'vol extern \<Rightarrow> 'vol SuperBlock \<Rightarrow> CryptedVolumeParms \<Rightarrow> world \<Rightarrow>
   CoreResult \<times> 'vol SuperBlock \<times> world" where
  "readSuperBlock2 env pSuperBlock pParms w =
     (if length (pszBasePath pSuperBlock) + length (SUPERBLOCK2_NAME env)
           \<ge> MAX_VOLUME_BASE_PATH_NAME env + 128
      then (CORERC_INVALID_PARAMETER, pSuperBlock, w)
      else
        case fopen_r (pszBasePath pSuperBlock @ SUPERBLOCK2_NAME env) w of
          (None, w1) \<Rightarrow> (CORERC_STORAGE, pSuperBlock, w1)
        | (Some file, w1) \<Rightarrow>
            (case fread_item (SECTOR_SIZE env) file w1 of
               (None, w2) \<Rightarrow> (CORERC_STORAGE, pSuperBlock, snd (fclose w2))
             | (Some abSector, w2) \<Rightarrow>
                 let (eof, w3) = fclose w2
                 in if eof then (CORERC_STORAGE, pSuperBlock, w3)
                    else
                      let (cr, sector) = coreDecryptSectorData env abSector
                                           (pKey pSuperBlock) (flCryptoFlags pParms);
                          pOnDisk = payload sector
                      in (cr,
                          pSuperBlock\<lparr>
                            magic := bytesToInt32 env (bytes_at 0 4 pOnDisk),
                            version := bytesToInt32 env (bytes_at 4 4 pOnDisk),
                            flFlags := bytesToInt32 env (bytes_at 8 4 pOnDisk),
                            idRoot := bytesToInt32 env (bytes_at 12 4 pOnDisk),
                            szLabel := (bytes_at label_offset (LABEL_SIZE env) pOnDisk)
                                         [LABEL_SIZE env - 1 := 0],
                            szDescription :=
                              (bytes_at (description_offset env) (DESCRIPTION_SIZE env) pOnDisk)
                                [DESCRIPTION_SIZE env - 1 := 0]\<rparr>,
                          w3)))"

definition createVolume ::
  "'vol extern \<Rightarrow> 'vol SuperBlock \<Rightarrow> CryptedVolumeParms \<Rightarrow> CoreResult \<times> 'vol SuperBlock" where
  "createVolume env pSuperBlock pParms =
     (let (cr, vol) = coreAccessVolume env (pszBasePath pSuperBlock) (pKey pSuperBlock) pParms
      in (cr, pSuperBlock\<lparr>pVolume := vol\<rparr>))"

subsection \<open>coreReadSuperBlock\<close>

text \<open>
  The result is the code returned, \<^verbatim>\<open>*ppSuperBlock\<close> (\<open>None\<close> for the null pointer),
  \<^verbatim>\<open>*pParms\<close> and the world as the call leaves them. The outer \<open>None\<close> is a call that
  does not return: the \<^verbatim>\<open>assert\<close> fails, or \<^verbatim>\<open>coreHashKey\<close> writes outside \<^verbatim>\<open>abKey\<close>.
\<close>

definition coreReadSuperBlock ::
  "'vol extern \<Rightarrow> string \<Rightarrow> string \<Rightarrow> Cipher list \<Rightarrow> CryptedVolumeParms \<Rightarrow> world \<Rightarrow>
   (CoreResult \<times> 'vol SuperBlock option \<times> CryptedVolumeParms \<times> world) option" where
  "coreReadSuperBlock env basePath pszKey papCipher pParms w =
     (if \<not> sizeof_SuperBlock2OnDisk env \<le> PAYLOAD_SIZE env then None
      else
        case sysAllocSecureMem w of
          (False, w1) \<Rightarrow> Some (CORERC_NOT_ENOUGH_MEMORY, None, pParms, w1)
        | (True, w1) \<Rightarrow>
            (case readSuperBlock1 env ((uninit env)\<lparr>pszBasePath := basePath\<rparr>)
                    pszKey pParms papCipher w1 of
               None \<Rightarrow> None
             | Some (cr, sb1, pParms1, w2) \<Rightarrow>
                 if cr \<noteq> CORERC_OK then Some (cr, None, pParms1, sysFreeSecureMem w2)
                 else
                   let (crread2, sb2, w3) = readSuperBlock2 env sb1 pParms1 w2;
                       (cr', sb3) = createVolume env sb2 pParms1
                   in if cr' \<noteq> CORERC_OK then Some (cr', None, pParms1, sysFreeSecureMem w3)
                      else if crread2 \<noteq> CORERC_OK then Some (crread2, Some sb3, pParms1, w3)
                      else if magic sb3 \<noteq> SUPERBLOCK2_MAGIC env
                        then Some (CORERC_BAD_SUPERBLOCK, Some sb3, pParms1, w3)
                      else if version sb3 > SBV_CURRENT env
                        then Some (CORERC_BAD_VERSION, Some sb3, pParms1, w3)
                      else Some (CORERC_OK, Some sb3, pParms1, w3)))"

subsection \<open>coreWriteSuperBlock\<close>

text \<open>The conversion \<^verbatim>\<open>%d\<close> of \<^verbatim>\<open>fprintf\<close>; its argument is an \<^verbatim>\<open>int\<close> (\<open>int32\<close> where the
  code computes it).\<close>

fun dec_nat :: "nat \<Rightarrow> string" where
  "dec_nat n = (if n < 10 then [char_of (48 + n)] else dec_nat (n div 10) @ [char_of (48 + n mod 10)])"

declare dec_nat.simps [simp del]

definition printf_d :: "int \<Rightarrow> string" where
  "printf_d i = (if i < 0 then CHR ''-'' # dec_nat (nat (- i)) else dec_nat (nat i))"

text \<open>
  \<^verbatim>\<open>strcpy(dst, src)\<close> into the array member at offset \<open>off\<close> of the payload: the bytes of
  \<open>src\<close> before its first NUL, and a NUL. (When \<open>src\<close> holds no NUL, C reads on behind the
  array; the model stops at its end.)
\<close>

definition strcpy_at :: "nat \<Rightarrow> octet list \<Rightarrow> octet list \<Rightarrow> octet list" where
  "strcpy_at off src buf = poke off (cstring src @ [0]) buf"

text \<open>
  The sector that \<^verbatim>\<open>coreWriteSuperBlock\<close> builds before it encrypts it: the \<^verbatim>\<open>memset\<close> of the
  payload, the random bits (out of \<^verbatim>\<open>sysGetRandomBits\<close>, stored in \<^verbatim>\<open>sector.random\<close>), and
  the six members of \<^verbatim>\<open>SuperBlock2OnDisk\<close> written over the start of the payload.
\<close>

definition buildSector :: "'vol extern \<Rightarrow> 'vol SuperBlock \<Rightarrow> octet list \<Rightarrow> CryptedSectorData" where
  "buildSector env pSuperBlock rnd =
     \<lparr>sector_random = rnd,
      payload =
        strcpy_at (description_offset env) (szDescription pSuperBlock)
          (strcpy_at label_offset (szLabel pSuperBlock)
            (poke 12 (int32ToBytes env (idRoot pSuperBlock))
              (poke 8 (int32ToBytes env (flFlags pSuperBlock))
                (poke 4 (int32ToBytes env (SBV_CURRENT env))
                  (poke 0 (int32ToBytes env (SUPERBLOCK2_MAGIC env))
                    (replicate (PAYLOAD_SIZE env) 0))))))\<rparr>"

text \<open>
  The block "Write the unencrypted part of the superblock": the result code (\<open>CORERC_OK\<close>
  when the block runs to its end) and the world.
\<close>

definition writeSuperBlock1 ::
  "'vol extern \<Rightarrow> 'vol SuperBlock \<Rightarrow> CryptedVolumeParms \<Rightarrow> world \<Rightarrow> CoreResult \<times> world" where
  "writeSuperBlock1 env pSuperBlock pParms w =
     (let szFileName = pszBasePath pSuperBlock @ SUPERBLOCK1_NAME env
      in if length szFileName \<ge> MAX_VOLUME_BASE_PATH_NAME env + 128
         then (CORERC_INVALID_PARAMETER, w)
         else
           case fopen_w szFileName w of
             (False, w1) \<Rightarrow> (CORERC_STORAGE, w1)
           | (True, w1) \<Rightarrow>
               (case fput szFileName
                       (octets (''cipher: '' @ pszID (pCipher (pKey pSuperBlock)) @ ''-''
                          @ printf_d (int32 (cbKey (pKey pSuperBlock) * 8)) @ ''-''
                          @ printf_d (int32 (cbBlock (pKey pSuperBlock) * 8)) @ [CHR 0x0A])) w1 of
                  (False, w2) \<Rightarrow> (CORERC_STORAGE, snd (fclose w2))
                | (True, w2) \<Rightarrow>
                    (case fput szFileName
                            (octets (''use-cbc: ''
                               @ printf_d (sint (flCryptoFlags pParms AND CCRYPT_USE_CBC env))
                               @ [CHR 0x0A])) w2 of
                       (False, w3) \<Rightarrow> (CORERC_STORAGE, snd (fclose w3))
                     | (True, w3) \<Rightarrow>
                         (let (eof, w4) = fclose w3
                          in if eof then (CORERC_STORAGE, w4) else (CORERC_OK, w4)))))"

text \<open>
  \<^verbatim>\<open>coreWriteSuperBlock\<close>: the code returned, \<^verbatim>\<open>*pSuperBlock\<close> and the world afterwards.
  \<^verbatim>\<open>coreEncryptSectorData\<close> encrypts the sector in place and \<^verbatim>\<open>fwrite\<close> writes that memory.
\<close>

definition coreWriteSuperBlock ::
  "'vol extern \<Rightarrow> 'vol SuperBlock \<Rightarrow> 32 word \<Rightarrow> world \<Rightarrow> CoreResult \<times> 'vol SuperBlock \<times> world" where
  "coreWriteSuperBlock env pSuperBlock flags w =
     (let pParms = coreQueryVolumeParms env (pVolume pSuperBlock)
      in if fReadOnly pParms then (CORERC_READ_ONLY, pSuperBlock, w)
         else
           let (cr1, w1) = (if flags AND CWS_NOWRITE_SUPERBLOCK1 env = 0
                            then writeSuperBlock1 env pSuperBlock pParms w
                            else (CORERC_OK, w));
               szFileName = pszBasePath pSuperBlock @ SUPERBLOCK2_NAME env
           in if cr1 \<noteq> CORERC_OK then (cr1, pSuperBlock, w1)
              else if length szFileName \<ge> MAX_VOLUME_BASE_PATH_NAME env + 128
                then (CORERC_INVALID_PARAMETER, pSuperBlock, w1)
              else
                (case fopen_w szFileName w1 of
                   (False, w2) \<Rightarrow> (CORERC_STORAGE, pSuperBlock, w2)
                 | (True, w2) \<Rightarrow>
                     (let (rnd, w3) = sysGetRandomBits (RANDOM_SIZE env * 8) w2;
                          sector = buildSector env pSuperBlock rnd;
                          crypted = coreEncryptSectorData env sector
                                      (pKey pSuperBlock) (flCryptoFlags pParms)
                      in case fput szFileName crypted w3 of
                           (False, w4) \<Rightarrow> (CORERC_STORAGE, pSuperBlock, snd (fclose w4))
                         | (True, w4) \<Rightarrow>
                             (let (eof, w5) = fclose w4
                              in if eof then (CORERC_STORAGE, pSuperBlock, w5)
                                 else (CORERC_OK,
                                       pSuperBlock\<lparr>version := SBV_CURRENT env,
                                                   magic := SUPERBLOCK2_MAGIC env\<rparr>,
                                       w5)))))"

text \<open>The random bytes that a call of \<^verbatim>\<open>coreWriteSuperBlock\<close> in the world \<open>w\<close> draws.\<close>

definition drawn :: "'vol extern \<Rightarrow> world \<Rightarrow> octet list" where
  "drawn env w = draw (RANDOM_SIZE env * 8 div 8) (entropy w) (entropy_pos w)"

text \<open>The text of a file that consists of the given lines, each ended by a newline.\<close>

definition lines_text :: "string list \<Rightarrow> string" where
  "lines_text ls = concat (map (\<lambda>l. l @ [CHR 0x0A]) ls)"

text \<open>\<open>cbc_only c p q\<close>: the parameter blocks \<open>p\<close> and \<open>q\<close> differ at most in the bits \<open>c\<close> of
  \<^verbatim>\<open>flCryptoFlags\<close>.\<close>

definition cbc_only :: "32 word \<Rightarrow> CryptedVolumeParms \<Rightarrow> CryptedVolumeParms \<Rightarrow> bool" where
  "cbc_only c p q \<longleftrightarrow>
     fReadOnly q = fReadOnly p \<and>
     flCryptoFlags q OR c = flCryptoFlags p OR c \<and>
     flCryptoFlags q AND NOT c = flCryptoFlags p AND NOT c"

section \<open>Stand-ins for the collaborators\<close>

text \<open>
  The theorems below hold for every \<open>extern\<close> record. To run the model on concrete
  inputs, the following record fills it in with small sizes and with stand-ins for the
  collaborators: a digest that is not SHA (20 bytes that depend on the message), a
  sector "cipher" that leaves the bytes as they are (and reports the error
  \<open>CORERC_OTHER 3\<close> on decryption unless the sector starts with the byte 255),
  little-endian integers, and a
  volume that is its own parameters and cannot be opened with a key of block size 0.
\<close>

definition demo_sha :: "octet list \<Rightarrow> octet list" where
  "demo_sha msg =
     map (\<lambda>k. k + sum_list msg)
       [1, 2, 3, 4, 5, 6, 7, 8, 9, 10, 11, 12, 13, 14, 15, 16, 17, 18, 19, 20]"

definition demo_int32ToBytes :: "int \<Rightarrow> octet list" where
  "demo_int32ToBytes v =
     [word_of_int v, word_of_int (v div 256), word_of_int (v div 65536),
      word_of_int (v div 16777216)]"

definition demo_bytesToInt32 :: "octet list \<Rightarrow> int" where
  "demo_bytesToInt32 b =
     uint (b ! 0) + 256 * uint (b ! 1) + 65536 * uint (b ! 2) + 16777216 * uint (b ! 3)"

definition demo_parms :: CryptedVolumeParms where
  "demo_parms = \<lparr>flCryptoFlags = 0, fReadOnly = False\<rparr>"

definition demo_uninit :: "CryptedVolumeParms SuperBlock" where
  "demo_uninit =
     \<lparr>pszBasePath = [],
      pKey = \<lparr>pCipher = \<lparr>pszID = []\<rparr>, cbKey = 0, cbBlock = 0, pKeyData = []\<rparr>,
      pVolume = demo_parms,
      magic = 0, version = 0, flFlags = 0, idRoot = 0,
      szLabel = [0, 0, 0, 0],
      szDescription = [0, 0, 0, 0, 0, 0, 0, 0]\<rparr>"

definition demo_env :: "CryptedVolumeParms extern" where
  "demo_env =
     \<lparr>SUPERBLOCK1_NAME = ''SUPERBLK.1'',
      SUPERBLOCK2_NAME = ''SUPERBLK.2'',
      MAX_VOLUME_BASE_PATH_NAME = 256,
      MAX_KEY_SIZE = 32,
      SECTOR_SIZE = 36,
      RANDOM_SIZE = 4,
      PAYLOAD_SIZE = 32,
      LABEL_SIZE = 4,
      DESCRIPTION_SIZE = 8,
      SUPERBLOCK2_MAGIC = 7,
      SBV_CURRENT = 2,
      CCRYPT_USE_CBC = 1,
      CWS_NOWRITE_SUPERBLOCK1 = 1,
      sha = demo_sha,
      bytesToInt32 = demo_bytesToInt32,
      int32ToBytes = demo_int32ToBytes,
      cryptCreateKey = (\<lambda>c blk k ab.
        (CIPHERRC_OK, \<lparr>pCipher = c, cbKey = k, cbBlock = blk, pKeyData = take (nat k) ab\<rparr>)),
      coreDecryptSectorData = (\<lambda>bs key fl.
        (if hd bs = 255 then CORERC_OK else CORERC_OTHER 3,
         \<lparr>sector_random = take 4 bs, payload = drop 4 bs\<rparr>)),
      coreEncryptSectorData = (\<lambda>s key fl. sector_random s @ payload s),
      coreAccessVolume = (\<lambda>base key parms.
        if cbBlock key = 0 then (CORERC_OTHER 7, parms) else (CORERC_OK, parms)),
      coreQueryVolumeParms = (\<lambda>vol. vol),
      uninit = demo_uninit\<rparr>"

text \<open>A world with the given files and faults, no secure memory in use, and a random
  source that yields the byte 255 for ever.\<close>

definition demo_world :: "(string \<rightharpoonup> octet list) \<Rightarrow> bool list \<Rightarrow> world" where
  "demo_world fs flt =
     \<lparr>files = fs, faults = flt, secure_blocks = 0, entropy = (\<lambda>i. 255), entropy_pos = 0\<rparr>"

text \<open>A superblock in memory, as an earlier open might have left it: version 1, an
  old magic, label "AB", description "C", on a volume that is not read-only.\<close>

definition demo_sb :: "CryptedVolumeParms SuperBlock" where
  "demo_sb =
     \<lparr>pszBasePath = ''v/'',
      pKey = \<lparr>pCipher = \<lparr>pszID = ''toy''\<rparr>, cbKey = 8, cbBlock = 8, pKeyData = []\<rparr>,
      pVolume = \<lparr>flCryptoFlags = 1, fReadOnly = False\<rparr>,
      magic = 0, version = 1, flFlags = 5, idRoot = 9,
      szLabel = [65, 66, 0, 0],
      szDescription = [67, 0, 0, 0, 0, 0, 0, 0]\<rparr>"

text \<open>The plaintext header \<^verbatim>\<open>cipher: toy-64-64\<close>, \<^verbatim>\<open>use-cbc: 1\<close>.\<close>

definition demo_header :: "octet list" where
  "demo_header = octets (''cipher: toy-64-64'' @ [CHR 0x0A] @ ''use-cbc: 1'' @ [CHR 0x0A])"

text \<open>The superblock after \<^verbatim>\<open>readSuperBlock1\<close> has run on \<open>demo_header\<close> with the key phrase
  "secret".\<close>

definition demo_sb1 :: "CryptedVolumeParms SuperBlock" where
  "demo_sb1 = demo_uninit
     \<lparr>pszBasePath := ''v/'',
      pKey := \<lparr>pCipher = \<lparr>pszID = ''toy''\<rparr>, cbKey = 8, cbBlock = 8,
               pKeyData = [159, 128, 129, 130, 24, 24, 24, 24]\<rparr>\<rparr>"


text \<open>Two parameter blocks: the one \<open>demo_header\<close> leaves behind, and a read-only one.\<close>

definition demo_parms_cbc :: CryptedVolumeParms where
  "demo_parms_cbc = \<lparr>flCryptoFlags = 1, fReadOnly = False\<rparr>"

definition demo_parms_ro :: CryptedVolumeParms where
  "demo_parms_ro = \<lparr>flCryptoFlags = 1, fReadOnly = True\<rparr>"

text \<open>An encrypted record (under the stand-in cipher: the sector as it is) whose magic is
  1 and whose version is 3, where the stand-ins have magic 7 and current version 2.\<close>

definition demo_record_bad :: "octet list" where
  "demo_record_bad =
     [255, 255, 255, 255, 1, 0, 0, 0, 3, 0, 0, 0, 5, 0, 0, 0, 9, 0, 0, 0,
      65, 66, 0, 0, 67, 0, 0, 0, 0, 0, 0, 0, 0, 0, 0, 0]"

definition demo_sb_bad :: "CryptedVolumeParms SuperBlock" where
  "demo_sb_bad = demo_sb1
     \<lparr>magic := 1, version := 3, flFlags := 5, idRoot := 9,
      szLabel := [65, 66, 0, 0], szDescription := [67, 0, 0, 0, 0, 0, 0, 0]\<rparr>"

text \<open>The same record with the right magic 7 and version 3.\<close>

definition demo_record_new :: "octet list" where
  "demo_record_new =
     [255, 255, 255, 255, 7, 0, 0, 0, 3, 0, 0, 0, 5, 0, 0, 0, 9, 0, 0, 0,
      65, 66, 0, 0, 67, 0, 0, 0, 0, 0, 0, 0, 0, 0, 0, 0]"

definition demo_sb_new :: "CryptedVolumeParms SuperBlock" where
  "demo_sb_new = demo_sb1
     \<lparr>magic := 7, version := 3, flFlags := 5, idRoot := 9,
      szLabel := [65, 66, 0, 0], szDescription := [67, 0, 0, 0, 0, 0, 0, 0]\<rparr>"

text \<open>A header that gives the cipher the block size 0, and the superblock after
  \<^verbatim>\<open>readSuperBlock1\<close> has run on it.\<close>

definition demo_header_noblock :: "octet list" where
  "demo_header_noblock = octets (''cipher: toy-64-0'' @ [CHR 0x0A] @ ''use-cbc: 1'' @ [CHR 0x0A])"

definition demo_sb1_noblock :: "CryptedVolumeParms SuperBlock" where
  "demo_sb1_noblock = demo_uninit
     \<lparr>pszBasePath := ''v/'',
      pKey := \<lparr>pCipher = \<lparr>pszID = ''toy''\<rparr>, cbKey = 8, cbBlock = 0,
               pKeyData = [159, 128, 129, 130, 24, 24, 24, 24]\<rparr>\<rparr>"

text \<open>A sector on which the stand-in decryption reports its error, with no NUL in either
  string.\<close>

definition demo_record_corrupt :: "octet list" where
  "demo_record_corrupt =
     [0, 255, 255, 255, 9, 0, 0, 0, 8, 0, 0, 0, 7, 0, 0, 0, 6, 0, 0, 0,
      65, 66, 67, 68, 69, 70, 71, 72, 73, 74, 75, 76, 1, 2, 3, 4]"

text \<open>The sector that the stand-ins leave on disk when \<open>demo_sb\<close> is written with random
  bytes 255: the four random bytes, then the payload.\<close>

definition demo_record_written :: "octet list" where
  "demo_record_written =
     [255, 255, 255, 255, 7, 0, 0, 0, 2, 0, 0, 0, 5, 0, 0, 0, 9, 0, 0, 0,
      65, 66, 0, 0, 67, 0, 0, 0, 0, 0, 0, 0, 0, 0, 0, 0]"

text \<open>A header whose second \<^verbatim>\<open>cipher\<close> line is malformed: it has an id and no sizes.\<close>

definition demo_header_bogus :: "octet list" where
  "demo_header_bogus =
     octets (''cipher: toy-64-64'' @ [CHR 0x0A] @ ''cipher: bogus'' @ [CHR 0x0A])"

text \<open>The header \<^verbatim>\<open>use-cbc: 1\<close>, \<^verbatim>\<open>use-cbc: 0\<close>, \<^verbatim>\<open>cipher: toy-64-64\<close>, and a parameter block with
  the CBC bit and one more bit set.\<close>

definition demo_header_clear :: "octet list" where
  "demo_header_clear =
     octets (''use-cbc: 1'' @ [CHR 0x0A] @ ''use-cbc: 0'' @ [CHR 0x0A]
             @ ''cipher: toy-64-64'' @ [CHR 0x0A])"

definition demo_parms_both :: CryptedVolumeParms where
  "demo_parms_both = \<lparr>flCryptoFlags = 3, fReadOnly = False\<rparr>"

text \<open>The header \<^verbatim>\<open>cipher: nope-64-64\<close>, \<^verbatim>\<open>cipher: toy\<close>: a complete cipher line, then a
  cipher line without sizes.\<close>

definition demo_header_absent :: "octet list" where
  "demo_header_absent =
     octets (''cipher: nope-64-64'' @ [CHR 0x0A] @ ''cipher: toy'' @ [CHR 0x0A])"

text \<open>The header \<^verbatim>\<open>cipher: toy-0-64\<close>: a key of 0 bits.\<close>

definition demo_header_nokey :: "octet list" where
  "demo_header_nokey = octets (''cipher: toy-0-64'' @ [CHR 0x0A])"

section \<open>Properties\<close>

subsection \<open>Key derivation\<close>

lemma xorDigest_cyclic:
  "0 < length key \<Longrightarrow> kb = int (length key) \<Longrightarrow>
   xorDigest ds (key @ rest) ((p + n) mod length key) kb =
     Some (fold (\<lambda>(j, d) k. k[(p + j) mod length key := k ! ((p + j) mod length key) XOR d])
             (enumerate n ds) key @ rest,
           (p + n + length ds) mod length key)"
proof (induction ds arbitrary: key n)
  case Nil
  then show ?case by simp
next
  case (Cons d ds)
  let ?L = "length key"
  let ?q = "(p + n) mod ?L"
  have q: "?q < ?L" using Cons.prems by simp
  let ?key' = "key[?q := key ! ?q XOR d]"
  have len: "length ?key' = ?L" by simp
  have upd: "(key @ rest)[?q := (key @ rest) ! ?q XOR d] = ?key' @ rest"
    using q by (simp add: list_update_append nth_append)
  have nxt: "(if int (Suc ?q) = kb then 0 else Suc ?q) = (p + Suc n) mod ?L"
    using Cons.prems q by (auto simp: mod_Suc)
  have IH: "xorDigest ds (?key' @ rest) ((p + Suc n) mod length ?key') kb =
     Some (fold (\<lambda>(j, d) k. k[(p + j) mod length ?key' := k ! ((p + j) mod length ?key') XOR d])
             (enumerate (Suc n) ds) ?key' @ rest,
           (p + Suc n + length ds) mod length ?key')"
    by (rule Cons.IH) (use Cons.prems in simp_all)
  have step: "xorDigest (d # ds) (key @ rest) ?q kb =
      xorDigest ds (?key' @ rest) ((p + Suc n) mod ?L) kb"
    unfolding xorDigest.simps upd nxt using q by simp
  show ?case
    unfolding step using IH by (simp add: len del: length_list_update)
qed

lemma fold_xor_length:
  "length (fold (\<lambda>(j, d) k. k[f j := g k j d]) xs key) = length key"
  by (induction xs arbitrary: key) (auto split: prod.splits)

lemma length_spec_xor_cyclic: "length (spec_xor_cyclic key p digest) = length key"
  by (simp add: spec_xor_cyclic_def fold_xor_length)

lemma hashChunks_spec:
  "\<forall>m. length (H m) = SHA_DIGESTSIZE \<Longrightarrow>
   0 < length key \<Longrightarrow> kb = int (length key) \<Longrightarrow> p < length key \<Longrightarrow>
   hashChunks H pass (key @ rest) p kb =
     Some (fst (fold (spec_absorb H) (spec_chunks pass) (key, p)) @ rest)"
proof (induction "length pass" arbitrary: pass key p rule: less_induct)
  case less
  show ?case
  proof (cases "pass = []")
    case True
    then show ?thesis
      by (simp add: hashChunks.simps [of _ "[]"] spec_chunks.simps [of "[]"])
  next
    case False
    let ?L = "length key"
    let ?add = "if length pass \<ge> SHA_DIGESTSIZE then SHA_DIGESTSIZE else length pass"
    let ?dg = "H (key @ octets (take SHA_DIGESTSIZE pass))"
    let ?key' = "spec_xor_cyclic key p ?dg"
    let ?p' = "(p + SHA_DIGESTSIZE) mod ?L"
    have dlen: "length ?dg = SHA_DIGESTSIZE" using less.prems(1) by simp
    have tdg: "take SHA_DIGESTSIZE ?dg = ?dg" by (simp add: dlen)
    have tk: "take ?add pass = take SHA_DIGESTSIZE pass" by simp
    have dr: "drop ?add pass = drop SHA_DIGESTSIZE pass" by simp
    have pm: "p mod ?L = p" using less.prems by simp
    have x: "xorDigest ?dg (key @ rest) p kb = Some (?key' @ rest, ?p')"
      using xorDigest_cyclic [of key kb ?dg rest p 0] less.prems
      by (simp add: pm spec_xor_cyclic_def dlen)
    have klen: "length ?key' = ?L"
      by (rule length_spec_xor_cyclic)
    have shorter: "length (drop SHA_DIGESTSIZE pass) < length pass"
      using False by (simp add: SHA_DIGESTSIZE_def)
    have IH: "hashChunks H (drop SHA_DIGESTSIZE pass) (?key' @ rest) ?p' kb =
        Some (fst (fold (spec_absorb H) (spec_chunks (drop SHA_DIGESTSIZE pass)) (?key', ?p')) @ rest)"
    proof (rule less.hyps [OF shorter less.prems(1)])
      show "0 < length ?key'" using less.prems klen by simp
      show "kb = int (length ?key')" using less.prems klen by simp
      show "?p' < length ?key'" using less.prems klen by simp
    qed
    have tkk: "take (nat kb) (key @ rest) = key" using less.prems by simp
    have lhs: "hashChunks H pass (key @ rest) p kb =
        hashChunks H (drop SHA_DIGESTSIZE pass) (?key' @ rest) ?p' kb"
      by (subst hashChunks.simps)
         (simp only: False if_False Let_def tk dr tkk tdg x option.case prod.case)
    have rhs: "fold (spec_absorb H) (spec_chunks pass) (key, p) =
        fold (spec_absorb H) (spec_chunks (drop SHA_DIGESTSIZE pass)) (?key', ?p')"
      using False by (subst spec_chunks.simps) (simp add: spec_absorb_def)
    show ?thesis unfolding lhs rhs IH ..
  qed
qed

lemma demo_sha_length: "length (demo_sha m) = SHA_DIGESTSIZE"
  by (simp add: demo_sha_def SHA_DIGESTSIZE_def)

lemma length_fold_spec_absorb:
  "length (fst (fold (spec_absorb H) cs (key, p))) = length key"
  by (induction cs arbitrary: key p) (simp_all add: spec_absorb_def length_spec_xor_cyclic)

lemma length_spec_deriveKey: "length (spec_deriveKey H pass L) = L"
  by (simp add: spec_deriveKey_def length_fold_spec_absorb)

text \<open>
  What the code computes for a key length of at least 1: for every passphrase and every
  such key length that the array holds, \<^verbatim>\<open>coreHashKey\<close> returns success and leaves in the
  first \<open>cbKey\<close> bytes of the array exactly the key of the reference algorithm (the bytes
  behind them are untouched); and for the empty passphrase the key is all zero, for every
  key length from 0 up.
\<close>

theorem coreHashKey_reference:
  assumes "\<forall>m. length (H m) = SHA_DIGESTSIZE"
    and "kb \<le> int (length buf)"
  shows "(0 < kb \<longrightarrow>
            coreHashKey H pass buf kb =
              Some (CORERC_OK, spec_deriveKey H pass (nat kb) @ drop (nat kb) buf))
       \<and> (0 \<le> kb \<longrightarrow>
            coreHashKey H [] buf kb = Some (CORERC_OK, replicate (nat kb) 0 @ drop (nat kb) buf))"
proof (intro conjI impI)
  assume pos: "0 < kb"
  let ?key = "replicate (nat kb) (0 :: octet)"
  have "hashChunks H pass (?key @ drop (nat kb) buf) 0 kb =
      Some (fst (fold (spec_absorb H) (spec_chunks pass) (?key, 0)) @ drop (nat kb) buf)"
    by (rule hashChunks_spec [OF assms(1)]) (use pos in simp_all)
  then show "coreHashKey H pass buf kb =
      Some (CORERC_OK, spec_deriveKey H pass (nat kb) @ drop (nat kb) buf)"
    using pos assms(2) by (simp add: coreHashKey_def spec_deriveKey_def)
next
  assume "0 \<le> kb"
  then show "coreHashKey H [] buf kb = Some (CORERC_OK, replicate (nat kb) 0 @ drop (nat kb) buf)"
    using assms(2) by (simp add: coreHashKey_def hashChunks.simps [of _ "[]"])
qed

lemma coreHashKey_demo_zero:
  "coreHashKey demo_sha ''a'' (replicate 32 0) 0 =
     Some (CORERC_OK,
           [98, 99, 100, 101, 102, 103, 104, 105, 106, 107, 108, 109, 110, 111, 112, 113, 114,
            115, 116, 117, 0, 0, 0, 0, 0, 0, 0, 0, 0, 0, 0, 0])"
  by code_simp

lemma coreHashKey_demo_alphabet:
  "coreHashKey demo_sha ''abcdefghijklmnopqrstuvwxyz'' (replicate 32 0) 8 =
     Some (CORERC_OK, [99, 100, 101, 102, 64, 113, 114, 115] @ replicate 24 0)"
  by code_simp

theorem coreHashKey_reference_witness:
  "coreHashKey demo_sha ''abcdefghijklmnopqrstuvwxyz'' (replicate 32 0) 8 =
     Some (CORERC_OK, spec_deriveKey demo_sha ''abcdefghijklmnopqrstuvwxyz'' 8 @ replicate 24 0)
   \<and> spec_deriveKey demo_sha ''abcdefghijklmnopqrstuvwxyz'' 8 =
     [99, 100, 101, 102, 64, 113, 114, 115]
   \<and> coreHashKey demo_sha [] (replicate 32 0) 8 = Some (CORERC_OK, replicate 32 0)"
proof -
  let ?pass = "''abcdefghijklmnopqrstuvwxyz''"
  have d: "\<forall>m. length (demo_sha m) = SHA_DIGESTSIZE"
    by (simp add: demo_sha_length)
  have l: "(8 :: int) \<le> int (length (replicate 32 (0 :: octet)))"
    by simp
  have dr: "drop (nat 8) (replicate 32 (0 :: octet)) = replicate 24 0"
    by simp
  have rp: "replicate (nat 8) (0 :: octet) @ replicate 24 0 = replicate 32 0"
    by (simp add: replicate_add [symmetric])
  have a: "coreHashKey demo_sha ?pass (replicate 32 0) 8 =
      Some (CORERC_OK, spec_deriveKey demo_sha ?pass 8 @ replicate 24 0)"
    using coreHashKey_reference [OF d l, of ?pass] dr by simp
  have c: "coreHashKey demo_sha [] (replicate 32 0) 8 = Some (CORERC_OK, replicate 32 0)"
    using coreHashKey_reference [OF d l, of ?pass] dr rp by simp
  have "spec_deriveKey demo_sha ?pass 8 @ replicate 24 0 =
      [99, 100, 101, 102, 64, 113, 114, 115] @ replicate 24 0"
    using a coreHashKey_demo_alphabet by simp
  then have b: "spec_deriveKey demo_sha ?pass 8 = [99, 100, 101, 102, 64, 113, 114, 115]"
    by simp
  show ?thesis using a b c by simp
qed

subsection \<open>The stand-ins, evaluated\<close>

lemma demo_env_sel:
  "SUPERBLOCK1_NAME demo_env = ''SUPERBLK.1''"
  "SUPERBLOCK2_NAME demo_env = ''SUPERBLK.2''"
  "MAX_VOLUME_BASE_PATH_NAME demo_env = 256"
  "MAX_KEY_SIZE demo_env = 32"
  "SECTOR_SIZE demo_env = 36"
  "RANDOM_SIZE demo_env = 4"
  "PAYLOAD_SIZE demo_env = 32"
  "LABEL_SIZE demo_env = 4"
  "DESCRIPTION_SIZE demo_env = 8"
  "SUPERBLOCK2_MAGIC demo_env = 7"
  "SBV_CURRENT demo_env = 2"
  "CCRYPT_USE_CBC demo_env = 1"
  "CWS_NOWRITE_SUPERBLOCK1 demo_env = 1"
  "sha demo_env = demo_sha"
  "bytesToInt32 demo_env = demo_bytesToInt32"
  "int32ToBytes demo_env = demo_int32ToBytes"
  "cryptCreateKey demo_env c blk k ab =
     (CIPHERRC_OK, \<lparr>pCipher = c, cbKey = k, cbBlock = blk, pKeyData = take (nat k) ab\<rparr>)"
  "coreDecryptSectorData demo_env bs key fl =
     (if hd bs = 255 then CORERC_OK else CORERC_OTHER 3,
      \<lparr>sector_random = take 4 bs, payload = drop 4 bs\<rparr>)"
  "coreEncryptSectorData demo_env s key fl = sector_random s @ payload s"
  "coreAccessVolume demo_env base key parms =
     (if cbBlock key = 0 then (CORERC_OTHER 7, parms) else (CORERC_OK, parms))"
  "coreQueryVolumeParms demo_env vol = vol"
  "uninit demo_env = demo_uninit"
  by (simp_all add: demo_env_def)

lemma demo_layout: "sizeof_SuperBlock2OnDisk demo_env \<le> PAYLOAD_SIZE demo_env"
  by (simp add: sizeof_SuperBlock2OnDisk_def description_offset_def label_offset_def demo_env_sel)

lemma demo_header_lines:
  "readSuperBlock1_lines demo_env (text_of demo_header)
     \<lparr>szCipher = [], hdr_cbKey = 0, hdr_cbBlock = 0, hdr_parms = demo_parms\<rparr> =
   \<lparr>szCipher = ''toy'', hdr_cbKey = 8, hdr_cbBlock = 8,
    hdr_parms = \<lparr>flCryptoFlags = 1, fReadOnly = False\<rparr>\<rparr>"
  by code_simp

lemma demo_key_secret:
  "coreHashKey demo_sha ''secret'' (replicate 32 0) 8 =
     Some (CORERC_OK, [159, 128, 129, 130, 24, 24, 24, 24] @ replicate 24 0)"
  by code_simp

lemma demo_readSuperBlock1:
  "readSuperBlock1 demo_env (demo_uninit\<lparr>pszBasePath := ''v/''\<rparr>) ''secret'' demo_parms
     [\<lparr>pszID = ''toy''\<rparr>]
     \<lparr>files = fs(''v/SUPERBLK.1'' \<mapsto> demo_header), faults = [], secure_blocks = n,
      entropy = e, entropy_pos = k\<rparr> =
   Some (CORERC_OK, demo_sb1, \<lparr>flCryptoFlags = 1, fReadOnly = False\<rparr>,
     \<lparr>files = fs(''v/SUPERBLK.1'' \<mapsto> demo_header), faults = [], secure_blocks = n,
      entropy = e, entropy_pos = k\<rparr>)"
  by (simp add: readSuperBlock1_def demo_env_sel fopen_r_def fclose_def pop_fault_def
      demo_uninit_def demo_sb1_def demo_header_lines demo_key_secret)

lemma demo_header_noblock_lines:
  "readSuperBlock1_lines demo_env (text_of demo_header_noblock)
     \<lparr>szCipher = [], hdr_cbKey = 0, hdr_cbBlock = 0, hdr_parms = demo_parms\<rparr> =
   \<lparr>szCipher = ''toy'', hdr_cbKey = 8, hdr_cbBlock = 0,
    hdr_parms = \<lparr>flCryptoFlags = 1, fReadOnly = False\<rparr>\<rparr>"
  by code_simp

lemma demo_readSuperBlock1_noblock:
  "readSuperBlock1 demo_env (demo_uninit\<lparr>pszBasePath := ''v/''\<rparr>) ''secret'' demo_parms
     [\<lparr>pszID = ''toy''\<rparr>]
     \<lparr>files = fs(''v/SUPERBLK.1'' \<mapsto> demo_header_noblock), faults = [], secure_blocks = n,
      entropy = e, entropy_pos = k\<rparr> =
   Some (CORERC_OK, demo_sb1_noblock, \<lparr>flCryptoFlags = 1, fReadOnly = False\<rparr>,
     \<lparr>files = fs(''v/SUPERBLK.1'' \<mapsto> demo_header_noblock), faults = [], secure_blocks = n,
      entropy = e, entropy_pos = k\<rparr>)"
  by (simp add: readSuperBlock1_def demo_env_sel fopen_r_def fclose_def pop_fault_def
      demo_uninit_def demo_sb1_noblock_def demo_header_noblock_lines demo_key_secret)

subsection \<open>Opening a superblock\<close>

lemma demo_readSuperBlock2_missing:
  "readSuperBlock2 demo_env demo_sb1 pParms
     \<lparr>files = Map.empty(''v/SUPERBLK.1'' \<mapsto> demo_header), faults = [], secure_blocks = n,
      entropy = e, entropy_pos = k\<rparr> =
   (CORERC_STORAGE, demo_sb1,
     \<lparr>files = Map.empty(''v/SUPERBLK.1'' \<mapsto> demo_header), faults = [], secure_blocks = n,
      entropy = e, entropy_pos = k\<rparr>)"
  by (simp add: readSuperBlock2_def demo_env_sel fopen_r_def pop_fault_def demo_sb1_def
      demo_uninit_def)

lemma demo_readSuperBlock2_bad:
  assumes "pszBasePath sb = ''v/''"
  shows "readSuperBlock2 demo_env sb pParms
     \<lparr>files = (Map.empty(''v/SUPERBLK.2'' \<mapsto> demo_record_bad))(''v/SUPERBLK.1'' \<mapsto> hd1),
      faults = [], secure_blocks = n, entropy = e, entropy_pos = k\<rparr> =
   (CORERC_OK,
    sb\<lparr>magic := 1, version := 3, flFlags := 5, idRoot := 9,
       szLabel := [65, 66, 0, 0], szDescription := [67, 0, 0, 0, 0, 0, 0, 0]\<rparr>,
     \<lparr>files = (Map.empty(''v/SUPERBLK.2'' \<mapsto> demo_record_bad))(''v/SUPERBLK.1'' \<mapsto> hd1),
      faults = [], secure_blocks = n, entropy = e, entropy_pos = k\<rparr>)"
  using assms
  by (simp add: readSuperBlock2_def demo_env_sel fopen_r_def fread_item_def fclose_def
      pop_fault_def demo_record_bad_def bytes_at_def
      label_offset_def description_offset_def demo_bytesToInt32_def)

lemma demo_readSuperBlock2_new:
  assumes "pszBasePath sb = ''v/''"
  shows "readSuperBlock2 demo_env sb pParms
     \<lparr>files = (Map.empty(''v/SUPERBLK.2'' \<mapsto> demo_record_new))(''v/SUPERBLK.1'' \<mapsto> hd1),
      faults = [], secure_blocks = n, entropy = e, entropy_pos = k\<rparr> =
   (CORERC_OK,
    sb\<lparr>magic := 7, version := 3, flFlags := 5, idRoot := 9,
       szLabel := [65, 66, 0, 0], szDescription := [67, 0, 0, 0, 0, 0, 0, 0]\<rparr>,
     \<lparr>files = (Map.empty(''v/SUPERBLK.2'' \<mapsto> demo_record_new))(''v/SUPERBLK.1'' \<mapsto> hd1),
      faults = [], secure_blocks = n, entropy = e, entropy_pos = k\<rparr>)"
  using assms
  by (simp add: readSuperBlock2_def demo_env_sel fopen_r_def fread_item_def fclose_def
      pop_fault_def demo_record_new_def bytes_at_def
      label_offset_def description_offset_def demo_bytesToInt32_def)

text \<open>\<^verbatim>\<open>coreReadSuperBlock\<close> after \<^verbatim>\<open>readSuperBlock1\<close> has succeeded.\<close>

lemma coreReadSuperBlock_steps:
  assumes "sizeof_SuperBlock2OnDisk env \<le> PAYLOAD_SIZE env"
    and "sysAllocSecureMem w = (True, w1)"
    and "readSuperBlock1 env ((uninit env)\<lparr>pszBasePath := basePath\<rparr>) pszKey pParms papCipher w1 =
           Some (CORERC_OK, sb1, pParms1, w2)"
    and "readSuperBlock2 env sb1 pParms1 w2 = (crread2, sb2, w3)"
    and "createVolume env sb2 pParms1 = (cr', sb3)"
  shows "coreReadSuperBlock env basePath pszKey papCipher pParms w =
     (if cr' \<noteq> CORERC_OK then Some (cr', None, pParms1, sysFreeSecureMem w3)
      else if crread2 \<noteq> CORERC_OK then Some (crread2, Some sb3, pParms1, w3)
      else if magic sb3 \<noteq> SUPERBLOCK2_MAGIC env
        then Some (CORERC_BAD_SUPERBLOCK, Some sb3, pParms1, w3)
      else if version sb3 > SBV_CURRENT env
        then Some (CORERC_BAD_VERSION, Some sb3, pParms1, w3)
      else Some (CORERC_OK, Some sb3, pParms1, w3))"
  using assms by (simp add: coreReadSuperBlock_def)

lemma createVolume_fields:
  "createVolume env sb pParms = (cr, sb') \<Longrightarrow> magic sb' = magic sb \<and> version sb' = version sb"
  by (auto simp: createVolume_def split: prod.splits)

text \<open>
  C1: when the plaintext header was read, the cipher resolved and the key constructed
  (\<^verbatim>\<open>readSuperBlock1\<close> returns \<open>CORERC_OK\<close>) and the volume opened (\<^verbatim>\<open>createVolume\<close> returns
  \<open>CORERC_OK\<close>), but \<^verbatim>\<open>readSuperBlock2\<close> failed, \<^verbatim>\<open>coreReadSuperBlock\<close> stores the superblock
  through \<^verbatim>\<open>ppSuperBlock\<close> and returns the error of \<^verbatim>\<open>readSuperBlock2\<close>.
\<close>

theorem coreReadSuperBlock_degraded:
  assumes "sizeof_SuperBlock2OnDisk env \<le> PAYLOAD_SIZE env"
    and "sysAllocSecureMem w = (True, w1)"
    and "readSuperBlock1 env ((uninit env)\<lparr>pszBasePath := basePath\<rparr>) pszKey pParms papCipher w1 =
           Some (CORERC_OK, sb1, pParms1, w2)"
    and "readSuperBlock2 env sb1 pParms1 w2 = (crread2, sb2, w3)"
    and "createVolume env sb2 pParms1 = (CORERC_OK, sb3)"
    and "crread2 \<noteq> CORERC_OK"
  shows "coreReadSuperBlock env basePath pszKey papCipher pParms w =
           Some (crread2, Some sb3, pParms1, w3)"
  using assms by (simp add: coreReadSuperBlock_def)

theorem coreReadSuperBlock_degraded_witness:
  "coreReadSuperBlock demo_env ''v/'' ''secret'' [\<lparr>pszID = ''toy''\<rparr>] demo_parms
     (demo_world (Map.empty(''v/SUPERBLK.1'' \<mapsto> demo_header)) []) =
   Some (CORERC_STORAGE, Some (demo_sb1\<lparr>pVolume := demo_parms_cbc\<rparr>), demo_parms_cbc,
     (demo_world (Map.empty(''v/SUPERBLK.1'' \<mapsto> demo_header)) [])\<lparr>secure_blocks := 1\<rparr>)"
proof -
  let ?w = "demo_world (Map.empty(''v/SUPERBLK.1'' \<mapsto> demo_header)) []"
  let ?w1 = "?w\<lparr>secure_blocks := 1\<rparr>"
  have h1: "sysAllocSecureMem ?w = (True, ?w1)"
    by (simp add: sysAllocSecureMem_def pop_fault_def demo_world_def)
  have h2: "readSuperBlock1 demo_env ((uninit demo_env)\<lparr>pszBasePath := ''v/''\<rparr>) ''secret''
      demo_parms [\<lparr>pszID = ''toy''\<rparr>] ?w1 = Some (CORERC_OK, demo_sb1, demo_parms_cbc, ?w1)"
    by (simp add: demo_world_def demo_env_sel demo_readSuperBlock1 demo_parms_cbc_def)
  have h3: "readSuperBlock2 demo_env demo_sb1 demo_parms_cbc ?w1 = (CORERC_STORAGE, demo_sb1, ?w1)"
    by (simp add: demo_world_def demo_readSuperBlock2_missing)
  have h4: "createVolume demo_env demo_sb1 demo_parms_cbc =
      (CORERC_OK, demo_sb1\<lparr>pVolume := demo_parms_cbc\<rparr>)"
    by (simp add: createVolume_def demo_env_sel demo_sb1_def)
  have h5: "CORERC_STORAGE \<noteq> CORERC_OK"
    by simp
  show ?thesis
    using coreReadSuperBlock_degraded [OF demo_layout h1 h2 h3 h4 h5] .
qed

subsection \<open>The plaintext header and the cipher registry\<close>

lemma pop_fault_keeps:
  "pop_fault w = (f, w') \<Longrightarrow>
     files w' = files w \<and> secure_blocks w' = secure_blocks w \<and>
     entropy w' = entropy w \<and> entropy_pos w' = entropy_pos w"
  by (auto simp: pop_fault_def split: list.splits)

lemma sysAllocSecureMem_blocks:
  "sysAllocSecureMem w = (True, w') \<Longrightarrow> secure_blocks w' = Suc (secure_blocks w)"
  by (auto simp: sysAllocSecureMem_def Let_def split: prod.splits if_splits dest: pop_fault_keeps)

lemma fopen_r_blocks: "fopen_r name w = (r, w') \<Longrightarrow> secure_blocks w' = secure_blocks w"
  by (auto simp: fopen_r_def Let_def split: prod.splits if_splits dest: pop_fault_keeps)

lemma fclose_blocks: "fclose w = (r, w') \<Longrightarrow> secure_blocks w' = secure_blocks w"
  by (auto simp: fclose_def dest: pop_fault_keeps)

lemma findCipher_None_iff: "findCipher papCipher name = None \<longleftrightarrow> name \<notin> pszID ` set papCipher"
  by (induction papCipher) auto

lemma findCipher_first:
  "findCipher papCipher name = Some c \<Longrightarrow>
     \<exists>pre post. papCipher = pre @ c # post \<and> pszID c = name \<and> name \<notin> pszID ` set pre"
proof (induction papCipher)
  case Nil
  then show ?case by simp
next
  case (Cons a papCipher)
  show ?case
  proof (cases "pszID a = name")
    case True
    with Cons.prems have "a # papCipher = [] @ c # papCipher \<and> pszID c = name" by simp
    then show ?thesis by fastforce
  next
    case False
    with Cons obtain pre post where
      "papCipher = pre @ c # post" "pszID c = name" "name \<notin> pszID ` set pre" by auto
    with False have "a # papCipher = (a # pre) @ c # post \<and> pszID c = name
        \<and> name \<notin> pszID ` set (a # pre)" by auto
    then show ?thesis by blast
  qed
qed

text \<open>What \<^verbatim>\<open>readSuperBlock1\<close> returns once the header file has been opened, read and
  closed.\<close>

lemma readSuperBlock1_after_header:
  assumes "length (pszBasePath sb) + length (SUPERBLOCK1_NAME env) < MAX_VOLUME_BASE_PATH_NAME env + 128"
    and "fopen_r (pszBasePath sb @ SUPERBLOCK1_NAME env) w = (Some content, w1)"
    and "fclose w1 = (False, w2)"
    and "h = readSuperBlock1_lines env (text_of content)
               \<lparr>szCipher = [], hdr_cbKey = 0, hdr_cbBlock = 0, hdr_parms = pParms\<rparr>"
  shows "readSuperBlock1 env sb pszKey pParms papCipher w =
     (case findCipher papCipher (szCipher h) of
        None \<Rightarrow> Some (CORERC_UNKNOWN_CIPHER, sb, hdr_parms h, w2)
      | Some cipher \<Rightarrow>
          (case coreHashKey (sha env) pszKey (replicate (MAX_KEY_SIZE env) 0) (hdr_cbKey h) of
             None \<Rightarrow> None
           | Some (cr, abKey) \<Rightarrow>
               if cr \<noteq> CORERC_OK then Some (cr, sb, hdr_parms h, w2)
               else
                 let (cr2, key) = cryptCreateKey env cipher (hdr_cbBlock h) (hdr_cbKey h) abKey
                 in if cr2 \<noteq> CIPHERRC_OK
                    then Some (cipherResultToCore cr2, sb\<lparr>pKey := key\<rparr>, hdr_parms h, w2)
                    else Some (CORERC_OK, sb\<lparr>pKey := key\<rparr>, hdr_parms h, w2)))"
  using assms by (auto simp: readSuperBlock1_def Let_def split: option.splits prod.splits)

lemma readSuperBlock1_parms:
  assumes "length (pszBasePath sb) + length (SUPERBLOCK1_NAME env) < MAX_VOLUME_BASE_PATH_NAME env + 128"
    and "fopen_r (pszBasePath sb @ SUPERBLOCK1_NAME env) w = (Some content, w1)"
    and "fclose w1 = (False, w2)"
    and "readSuperBlock1 env sb pszKey pParms papCipher w = Some (cr, sb', pParms', w')"
  shows "pParms' = hdr_parms (readSuperBlock1_lines env (text_of content)
               \<lparr>szCipher = [], hdr_cbKey = 0, hdr_cbBlock = 0, hdr_parms = pParms\<rparr>)"
  using assms(4) unfolding readSuperBlock1_after_header [OF assms(1-3) refl]
  by (auto simp: Let_def split: option.splits prod.splits if_splits)

lemma open_unknown_cipher_result:
  assumes "sizeof_SuperBlock2OnDisk env \<le> PAYLOAD_SIZE env"
    and "sysAllocSecureMem w = (True, w1)"
    and "length basePath + length (SUPERBLOCK1_NAME env) < MAX_VOLUME_BASE_PATH_NAME env + 128"
    and "fopen_r (basePath @ SUPERBLOCK1_NAME env) w1 = (Some content, w2)"
    and "fclose w2 = (False, w3)"
    and "h = readSuperBlock1_lines env (text_of content)
               \<lparr>szCipher = [], hdr_cbKey = 0, hdr_cbBlock = 0, hdr_parms = pParms\<rparr>"
    and "findCipher papCipher (szCipher h) = None"
  shows "coreReadSuperBlock env basePath pszKey papCipher pParms w =
           Some (CORERC_UNKNOWN_CIPHER, None, hdr_parms h, sysFreeSecureMem w3)"
proof -
  let ?sb = "(uninit env)\<lparr>pszBasePath := basePath\<rparr>"
  have "readSuperBlock1 env ?sb pszKey pParms papCipher w1 =
      Some (CORERC_UNKNOWN_CIPHER, ?sb, hdr_parms h, w3)"
    using readSuperBlock1_after_header [of ?sb env w1 content w2 w3 h pParms pszKey papCipher]
      assms(3-7) by simp
  then show ?thesis
    using assms(1,2) by (simp add: coreReadSuperBlock_def)
qed

text \<open>
  What the code does for the cipher id that the loop over the header lines leaves in
  \<^verbatim>\<open>szCipher\<close>: when the header file has been read and that id is the \<^verbatim>\<open>pszID\<close> of no entry
  of the registry, \<^verbatim>\<open>coreReadSuperBlock\<close> returns \<open>CORERC_UNKNOWN_CIPHER\<close>, leaves the null
  pointer in \<^verbatim>\<open>*ppSuperBlock\<close> and has freed the block it allocated (as many secure blocks
  are in use afterwards as before).
\<close>

theorem coreReadSuperBlock_unknown_cipher:
  assumes "sizeof_SuperBlock2OnDisk env \<le> PAYLOAD_SIZE env"
    and "sysAllocSecureMem w = (True, w1)"
    and "length basePath + length (SUPERBLOCK1_NAME env) < MAX_VOLUME_BASE_PATH_NAME env + 128"
    and "fopen_r (basePath @ SUPERBLOCK1_NAME env) w1 = (Some content, w2)"
    and "fclose w2 = (False, w3)"
    and "h = readSuperBlock1_lines env (text_of content)
               \<lparr>szCipher = [], hdr_cbKey = 0, hdr_cbBlock = 0, hdr_parms = pParms\<rparr>"
    and "szCipher h \<notin> pszID ` set papCipher"
  shows "coreReadSuperBlock env basePath pszKey papCipher pParms w =
           Some (CORERC_UNKNOWN_CIPHER, None, hdr_parms h, sysFreeSecureMem w3)
       \<and> secure_blocks (sysFreeSecureMem w3) = secure_blocks w"
proof
  have "findCipher papCipher (szCipher h) = None"
    using assms(7) by (simp add: findCipher_None_iff)
  then show "coreReadSuperBlock env basePath pszKey papCipher pParms w =
           Some (CORERC_UNKNOWN_CIPHER, None, hdr_parms h, sysFreeSecureMem w3)"
    by (rule open_unknown_cipher_result [OF assms(1-6)])
  have "secure_blocks w3 = Suc (secure_blocks w)"
    using sysAllocSecureMem_blocks [OF assms(2)] fopen_r_blocks [OF assms(4)]
      fclose_blocks [OF assms(5)] by simp
  then show "secure_blocks (sysFreeSecureMem w3) = secure_blocks w"
    by (simp add: sysFreeSecureMem_def)
qed

theorem coreReadSuperBlock_unknown_cipher_witness:
  "coreReadSuperBlock demo_env ''v/'' ''secret'' [\<lparr>pszID = ''TOY''\<rparr>, \<lparr>pszID = ''toy2''\<rparr>] demo_parms
     (demo_world (Map.empty(''v/SUPERBLK.1'' \<mapsto> demo_header)) []) =
   Some (CORERC_UNKNOWN_CIPHER, None, demo_parms_cbc,
     demo_world (Map.empty(''v/SUPERBLK.1'' \<mapsto> demo_header)) [])"
proof -
  let ?w = "demo_world (Map.empty(''v/SUPERBLK.1'' \<mapsto> demo_header)) []"
  let ?w1 = "?w\<lparr>secure_blocks := 1\<rparr>"
  let ?h = "\<lparr>szCipher = ''toy'', hdr_cbKey = 8, hdr_cbBlock = 8, hdr_parms = demo_parms_cbc\<rparr>"
  have h1: "sysAllocSecureMem ?w = (True, ?w1)"
    by (simp add: sysAllocSecureMem_def pop_fault_def demo_world_def)
  have h2: "length ''v/'' + length (SUPERBLOCK1_NAME demo_env)
      < MAX_VOLUME_BASE_PATH_NAME demo_env + 128"
    by (simp add: demo_env_sel)
  have h3: "fopen_r (''v/'' @ SUPERBLOCK1_NAME demo_env) ?w1 = (Some demo_header, ?w1)"
    by (simp add: fopen_r_def pop_fault_def demo_world_def demo_env_sel)
  have h4: "fclose ?w1 = (False, ?w1)"
    by (simp add: fclose_def pop_fault_def demo_world_def)
  have h5: "?h = readSuperBlock1_lines demo_env (text_of demo_header)
      \<lparr>szCipher = [], hdr_cbKey = 0, hdr_cbBlock = 0, hdr_parms = demo_parms\<rparr>"
    by (simp add: demo_header_lines demo_parms_cbc_def)
  have h6: "szCipher ?h \<notin> pszID ` set [\<lparr>pszID = ''TOY''\<rparr>, \<lparr>pszID = ''toy2''\<rparr>]"
    by simp
  have "sysFreeSecureMem ?w1 = ?w"
    by (simp add: sysFreeSecureMem_def demo_world_def)
  then show ?thesis
    using coreReadSuperBlock_unknown_cipher [OF demo_layout h1 h2 h3 h4 h5 h6, of "''secret''"]
    by simp
qed

subsection \<open>A key of length 0, and a header with two cipher lines\<close>

lemma coreHashKey_demo_overrun:
  "coreHashKey demo_sha ''aaaaaaaaaaaaaaaaaaaaa'' (replicate 32 0) 0 = None"
  by code_simp

lemma demo_header_nokey_lines:
  "readSuperBlock1_lines demo_env (text_of demo_header_nokey)
     \<lparr>szCipher = [], hdr_cbKey = 0, hdr_cbBlock = 0, hdr_parms = demo_parms\<rparr> =
   \<lparr>szCipher = ''toy'', hdr_cbKey = 0, hdr_cbBlock = 8,
    hdr_parms = \<lparr>flCryptoFlags = 0, fReadOnly = False\<rparr>\<rparr>"
  by code_simp

lemma demo_readSuperBlock1_nokey:
  "readSuperBlock1 demo_env (demo_uninit\<lparr>pszBasePath := ''v/''\<rparr>) ''aaaaaaaaaaaaaaaaaaaaa''
     demo_parms [\<lparr>pszID = ''toy''\<rparr>]
     \<lparr>files = fs(''v/SUPERBLK.1'' \<mapsto> demo_header_nokey), faults = [], secure_blocks = n,
      entropy = e, entropy_pos = k\<rparr> = None"
  by (simp add: readSuperBlock1_def demo_env_sel fopen_r_def fclose_def pop_fault_def
      demo_uninit_def demo_header_nokey_lines coreHashKey_demo_overrun)

text \<open>
  C4 does not hold of the code for the key length 0, which the header line
  \<^verbatim>\<open>cipher: toy-0-64\<close> gives: \<open>iPos\<close> is 1 after the first digest byte and never equals
  \<open>cbKey\<close>, so the code never wraps. With the passphrase \<^verbatim>\<open>a\<close> the 20 digest bytes land in
  \<^verbatim>\<open>pabKey[0..19]\<close>, outside the key of 0 bytes, where the reference algorithm leaves the
  array as it was; with a passphrase of 21 characters the second chunk is XORed into
  \<^verbatim>\<open>pabKey[20..39]\<close>, past the end of the array of 32 bytes (\<open>None\<close>), and so it is when
  \<^verbatim>\<open>coreReadSuperBlock\<close> opens a volume with that header and that passphrase.
\<close>

theorem coreHashKey_zero_length_overrun:
  "coreHashKey demo_sha ''a'' (replicate 32 0) 0 =
     Some (CORERC_OK,
           [98, 99, 100, 101, 102, 103, 104, 105, 106, 107, 108, 109, 110, 111, 112, 113, 114,
            115, 116, 117, 0, 0, 0, 0, 0, 0, 0, 0, 0, 0, 0, 0])
   \<and> spec_deriveKey demo_sha ''a'' 0 @ drop 0 (replicate 32 0) = replicate 32 0
   \<and> coreHashKey demo_sha ''a'' (replicate 32 0) 0 \<noteq>
       Some (CORERC_OK, spec_deriveKey demo_sha ''a'' 0 @ drop 0 (replicate 32 0))
   \<and> coreHashKey demo_sha ''aaaaaaaaaaaaaaaaaaaaa'' (replicate 32 0) 0 = None
   \<and> coreReadSuperBlock demo_env ''v/'' ''aaaaaaaaaaaaaaaaaaaaa'' [\<lparr>pszID = ''toy''\<rparr>] demo_parms
       (demo_world (Map.empty(''v/SUPERBLK.1'' \<mapsto> demo_header_nokey)) []) = None"
proof -
  have s: "spec_deriveKey demo_sha ''a'' 0 = []"
    using length_spec_deriveKey [of demo_sha "''a''" 0] by simp
  have "replicate (Suc 31) (0 :: octet) = 0 # replicate 31 0"
    by (rule replicate_Suc)
  then have r: "replicate 32 (0 :: octet) = 0 # replicate 31 0"
    by simp
  have a: "coreHashKey demo_sha ''a'' (replicate 32 0) 0 \<noteq>
       Some (CORERC_OK, spec_deriveKey demo_sha ''a'' 0 @ drop 0 (replicate 32 0))"
    unfolding coreHashKey_demo_zero using s r by simp
  have b: "spec_deriveKey demo_sha ''a'' 0 @ drop 0 (replicate 32 0) = replicate 32 0"
    using s by simp
  have c: "coreReadSuperBlock demo_env ''v/'' ''aaaaaaaaaaaaaaaaaaaaa'' [\<lparr>pszID = ''toy''\<rparr>]
      demo_parms (demo_world (Map.empty(''v/SUPERBLK.1'' \<mapsto> demo_header_nokey)) []) = None"
    by (simp add: coreReadSuperBlock_def demo_layout sysAllocSecureMem_def pop_fault_def
        demo_world_def demo_env_sel demo_readSuperBlock1_nokey)
  show ?thesis
    using coreHashKey_demo_zero a b coreHashKey_demo_overrun c by blast
qed

lemma demo_header_absent_lines:
  "readSuperBlock1_lines demo_env (text_of demo_header_absent)
     \<lparr>szCipher = [], hdr_cbKey = 0, hdr_cbBlock = 0, hdr_parms = demo_parms\<rparr> =
   \<lparr>szCipher = ''toy'', hdr_cbKey = 8, hdr_cbBlock = 8,
    hdr_parms = \<lparr>flCryptoFlags = 0, fReadOnly = False\<rparr>\<rparr>"
  by code_simp

lemma demo_line_nope:
  "readSuperBlock1_line demo_env (''cipher: nope-64-64'' @ [CHR 0x0A])
     \<lparr>szCipher = [], hdr_cbKey = 0, hdr_cbBlock = 0, hdr_parms = demo_parms\<rparr> =
   \<lparr>szCipher = ''nope'', hdr_cbKey = 8, hdr_cbBlock = 8, hdr_parms = demo_parms\<rparr>"
  by code_simp

lemma demo_line_toy:
  "sscanf_cipher ''toy'' (''nope'', 8, 8) = (1, ''toy'', 8, 8)"
  by code_simp

lemma demo_readSuperBlock1_absent:
  "readSuperBlock1 demo_env (demo_uninit\<lparr>pszBasePath := ''v/''\<rparr>) ''secret'' demo_parms
     [\<lparr>pszID = ''toy''\<rparr>]
     \<lparr>files = fs(''v/SUPERBLK.1'' \<mapsto> demo_header_absent), faults = [], secure_blocks = n,
      entropy = e, entropy_pos = k\<rparr> =
   Some (CORERC_OK, demo_sb1, \<lparr>flCryptoFlags = 0, fReadOnly = False\<rparr>,
     \<lparr>files = fs(''v/SUPERBLK.1'' \<mapsto> demo_header_absent), faults = [], secure_blocks = n,
      entropy = e, entropy_pos = k\<rparr>)"
  by (simp add: readSuperBlock1_def demo_env_sel fopen_r_def fclose_def pop_fault_def
      demo_uninit_def demo_sb1_def demo_header_absent_lines demo_key_secret)

lemma demo_readSuperBlock2_written:
  assumes "pszBasePath sb = ''v/''"
  shows "readSuperBlock2 demo_env sb pParms
     \<lparr>files = (Map.empty(''v/SUPERBLK.2'' \<mapsto> demo_record_written))(''v/SUPERBLK.1'' \<mapsto> hd1),
      faults = [], secure_blocks = n, entropy = e, entropy_pos = k\<rparr> =
   (CORERC_OK,
    sb\<lparr>magic := 7, version := 2, flFlags := 5, idRoot := 9,
       szLabel := [65, 66, 0, 0], szDescription := [67, 0, 0, 0, 0, 0, 0, 0]\<rparr>,
     \<lparr>files = (Map.empty(''v/SUPERBLK.2'' \<mapsto> demo_record_written))(''v/SUPERBLK.1'' \<mapsto> hd1),
      faults = [], secure_blocks = n, entropy = e, entropy_pos = k\<rparr>)"
  using assms
  by (simp add: readSuperBlock2_def demo_env_sel fopen_r_def fread_item_def fclose_def
      pop_fault_def demo_record_written_def bytes_at_def
      label_offset_def description_offset_def demo_bytesToInt32_def)

text \<open>An id of 70 characters: \<^verbatim>\<open>%63[^-]\<close> stores its first 63 characters and the call
  returns 1.\<close>

lemma sscanf_cipher_long_id:
  "sscanf_cipher (replicate 70 CHR ''x'' @ ''-64-64'') ([], 0, 0) =
     (1, replicate 63 CHR ''x'', 0, 0)"
  by code_simp

text \<open>
  C6 does not hold of the code: the header \<^verbatim>\<open>cipher: nope-64-64\<close>, \<^verbatim>\<open>cipher: toy\<close> names the
  cipher \<^verbatim>\<open>nope\<close>, which the registry (the one cipher \<^verbatim>\<open>toy\<close>) does not hold, and its second
  cipher line has no sizes, so that \<^verbatim>\<open>sscanf\<close> returns 1 and the line is passed over. But
  \<^verbatim>\<open>sscanf\<close> has stored the id of that line in \<^verbatim>\<open>szCipher\<close> already: the open goes on with
  the cipher \<^verbatim>\<open>toy\<close> and the sizes of the first line, returns \<open>CORERC_OK\<close> and stores a
  superblock through \<^verbatim>\<open>ppSuperBlock\<close>; the block is not freed.
\<close>

theorem coreReadSuperBlock_absent_cipher_opens:
  "readSuperBlock1_line demo_env (''cipher: nope-64-64'' @ [CHR 0x0A])
     \<lparr>szCipher = [], hdr_cbKey = 0, hdr_cbBlock = 0, hdr_parms = demo_parms\<rparr> =
   \<lparr>szCipher = ''nope'', hdr_cbKey = 8, hdr_cbBlock = 8, hdr_parms = demo_parms\<rparr>
   \<and> findCipher [\<lparr>pszID = ''toy''\<rparr>] ''nope'' = None
   \<and> sscanf_cipher ''toy'' (''nope'', 8, 8) = (1, ''toy'', 8, 8)
   \<and> coreReadSuperBlock demo_env ''v/'' ''secret'' [\<lparr>pszID = ''toy''\<rparr>] demo_parms
       (demo_world ((Map.empty(''v/SUPERBLK.2'' \<mapsto> demo_record_written))
                      (''v/SUPERBLK.1'' \<mapsto> demo_header_absent)) []) =
     Some (CORERC_OK,
       Some (demo_sb1\<lparr>pVolume := demo_parms, magic := 7, version := 2, flFlags := 5, idRoot := 9,
               szLabel := [65, 66, 0, 0], szDescription := [67, 0, 0, 0, 0, 0, 0, 0]\<rparr>),
       demo_parms,
       (demo_world ((Map.empty(''v/SUPERBLK.2'' \<mapsto> demo_record_written))
                      (''v/SUPERBLK.1'' \<mapsto> demo_header_absent)) [])\<lparr>secure_blocks := 1\<rparr>)"
proof -
  let ?fs = "(Map.empty(''v/SUPERBLK.2'' \<mapsto> demo_record_written))
               (''v/SUPERBLK.1'' \<mapsto> demo_header_absent)"
  let ?w = "demo_world ?fs []"
  let ?w1 = "?w\<lparr>secure_blocks := 1\<rparr>"
  let ?sb2 = "demo_sb1
      \<lparr>magic := 7, version := 2, flFlags := 5, idRoot := 9,
       szLabel := [65, 66, 0, 0], szDescription := [67, 0, 0, 0, 0, 0, 0, 0]\<rparr>"
  have h1: "sysAllocSecureMem ?w = (True, ?w1)"
    by (simp add: sysAllocSecureMem_def pop_fault_def demo_world_def)
  have h2: "readSuperBlock1 demo_env ((uninit demo_env)\<lparr>pszBasePath := ''v/''\<rparr>) ''secret''
      demo_parms [\<lparr>pszID = ''toy''\<rparr>] ?w1 = Some (CORERC_OK, demo_sb1, demo_parms, ?w1)"
    by (simp add: demo_world_def demo_env_sel demo_readSuperBlock1_absent)
       (simp add: demo_parms_def)
  have b: "pszBasePath demo_sb1 = ''v/''"
    by (simp add: demo_sb1_def)
  have h3: "readSuperBlock2 demo_env demo_sb1 demo_parms ?w1 = (CORERC_OK, ?sb2, ?w1)"
    by (simp add: demo_world_def demo_readSuperBlock2_written [OF b])
  have h4: "createVolume demo_env ?sb2 demo_parms = (CORERC_OK, ?sb2\<lparr>pVolume := demo_parms\<rparr>)"
    by (simp add: createVolume_def demo_env_sel demo_sb1_def)
  have run: "coreReadSuperBlock demo_env ''v/'' ''secret'' [\<lparr>pszID = ''toy''\<rparr>] demo_parms ?w =
      Some (CORERC_OK, Some (?sb2\<lparr>pVolume := demo_parms\<rparr>), demo_parms, ?w1)"
    unfolding coreReadSuperBlock_steps [OF demo_layout h1 h2 h3 h4]
    by (simp add: demo_sb1_def demo_env_sel)
  have f: "findCipher [\<lparr>pszID = ''toy''\<rparr>] ''nope'' = None"
    by simp
  show ?thesis
    using demo_line_nope f demo_line_toy run by simp
qed

subsection \<open>The loop over the header lines\<close>

lemma text_of_octets: "text_of (octets s) = s"
proof -
  have "char_of (unat (of_char c :: octet)) = c" for c
  proof -
    have "unat (of_char c :: octet) = of_char c"
      by (simp add: unat_of_nat of_nat_of_char [symmetric, where 'a = octet] del: of_nat_of_char)
    then show ?thesis by simp
  qed
  then show ?thesis
    by (simp add: text_of_def octets_def map_idI)
qed

lemma takeWhile_stop: "\<forall>x\<in>set xs. P x \<Longrightarrow> \<not> P y \<Longrightarrow> takeWhile P (xs @ y # ys) = xs"
  by (induction xs) auto

lemma dropWhile_stop: "\<forall>x\<in>set xs. P x \<Longrightarrow> \<not> P y \<Longrightarrow> dropWhile P (xs @ y # ys) = y # ys"
  by (induction xs) auto

lemma fgets_line:
  assumes "CHR 0x0A \<notin> set l" and "length l < 255"
  shows "fgets 256 (l @ CHR 0x0A # rest) = Some (l @ [CHR 0x0A], rest)"
proof -
  let ?window = "take 255 (l @ CHR 0x0A # rest)"
  have w: "?window = l @ CHR 0x0A # take (254 - length l) rest"
    using assms(2) by (simp add: take_Cons')
  have t: "takeWhile (\<lambda>c. c \<noteq> CHR 0x0A) ?window = l"
    unfolding w using assms(1) by (intro takeWhile_stop) auto
  have lw: "length l < length ?window"
    unfolding w by simp
  show ?thesis
    unfolding fgets_def using t lw by (simp add: Let_def)
qed

lemma readSuperBlock1_lines_fold:
  assumes "\<forall>l\<in>set ls. CHR 0x0A \<notin> set l \<and> length l < 255"
  shows "readSuperBlock1_lines env (lines_text ls) h =
           fold (\<lambda>l. readSuperBlock1_line env (l @ [CHR 0x0A])) ls h"
  using assms
proof (induction ls arbitrary: h)
  case Nil
  show ?case
    by (subst readSuperBlock1_lines.simps) (simp add: lines_text_def fgets_def)
next
  case (Cons l ls)
  have g: "fgets 256 (lines_text (l # ls)) = Some (l @ [CHR 0x0A], lines_text ls)"
    using fgets_line [of l "lines_text ls"] Cons.prems by (simp add: lines_text_def)
  have "readSuperBlock1_lines env (lines_text (l # ls)) h =
      readSuperBlock1_lines env (lines_text ls) (readSuperBlock1_line env (l @ [CHR 0x0A]) h)"
    by (subst readSuperBlock1_lines.simps) (simp add: g)
  then show ?case
    using Cons by simp
qed

lemma cbc_bits:
  fixes x c :: "32 word"
  shows "(x OR c) OR c = x OR c" "(x OR c) AND NOT c = x AND NOT c"
    "(x AND NOT c) OR c = x OR c" "(x AND NOT c) AND NOT c = x AND NOT c"
  by (rule bit_eqI; auto simp: bit_simps)+

lemma cbc_only_refl: "cbc_only c p p"
  by (simp add: cbc_only_def)

lemma cbc_only_trans: "cbc_only c p q \<Longrightarrow> cbc_only c q r \<Longrightarrow> cbc_only c p r"
  by (simp add: cbc_only_def)

lemma readSuperBlock1_line_cbc_only:
  "cbc_only (CCRYPT_USE_CBC env) (hdr_parms h) (hdr_parms (readSuperBlock1_line env szLine h))"
proof (cases "sscanf_name_value (c_str szLine)")
  case (fields n name val)
  obtain m c k b where s: "sscanf_cipher val (szCipher h, hdr_cbKey h, hdr_cbBlock h) = (m, c, k, b)"
    by (cases "sscanf_cipher val (szCipher h, hdr_cbKey h, hdr_cbBlock h)")
  show ?thesis
    unfolding readSuperBlock1_line_def fields
    by (simp add: s Let_def cbc_only_def cbc_bits)
qed

lemma fold_lines_cbc_only:
  "cbc_only (CCRYPT_USE_CBC env) (hdr_parms h)
     (hdr_parms (fold (\<lambda>l. readSuperBlock1_line env (l @ [CHR 0x0A])) ls h))"
proof (induction ls arbitrary: h)
  case Nil
  show ?case by (simp add: cbc_only_refl)
next
  case (Cons l ls)
  show ?case
    using cbc_only_trans [OF readSuperBlock1_line_cbc_only Cons.IH] by simp
qed

text \<open>How the first sscanf reads a line \<^verbatim>\<open>use-cbc: v\<close>, and which lines it reads as a
  \<^verbatim>\<open>use-cbc\<close> line.\<close>

lemma c_str_id: "CHR 0x00 \<notin> set s \<Longrightarrow> c_str s = s"
  by (auto simp: c_str_def takeWhile_eq_all_conv)

lemma sscanf_use_cbc_line:
  assumes "v \<noteq> []" and "\<forall>c\<in>set v. \<not> isspace c \<and> c \<noteq> CHR 0x00"
  shows "sscanf_name_value (c_str (''use-cbc: '' @ v @ [CHR 0x0A])) = (2, ''use-cbc'', v)"
proof -
  have z: "c_str (''use-cbc: '' @ v @ [CHR 0x0A]) = ''use-cbc: '' @ v @ [CHR 0x0A]"
    using assms(2) by (intro c_str_id) auto
  have sp: "isspace (CHR 0x0A)" "isspace CHR '' ''"
    by (simp_all add: isspace_def)
  obtain a v' where v: "v = a # v'" using assms(1) by (cases v) auto
  have a: "\<not> isspace a" using assms(2) v by simp
  have d: "dropWhile isspace (v @ [CHR 0x0A]) = v @ [CHR 0x0A]"
    using a by (simp add: v)
  have t: "takeWhile (\<lambda>c. \<not> isspace c) (v @ [CHR 0x0A]) = v"
    using assms(2) sp by (intro takeWhile_stop) auto
  show ?thesis
    unfolding z sscanf_name_value_def using assms(1) by (simp add: sp d t)
qed

lemma sscanf_name_prefix:
  assumes "sscanf_name_value s = (2, name, val)"
  shows "take (Suc (length name)) s = name @ [CHR '':'']"
proof -
  let ?P = "\<lambda>c. c \<noteq> CHR '':''"
  have n: "name = takeWhile ?P s" and r: "dropWhile ?P s \<noteq> []"
    using assms
    by (auto simp: sscanf_name_value_def Let_def dropWhile_eq_drop split: if_splits)
  have "\<not> ?P (hd (dropWhile ?P s))"
    using r by (rule hd_dropWhile)
  then obtain rest where d: "dropWhile ?P s = CHR '':'' # rest"
    using r by (cases "dropWhile ?P s") auto
  have "s = name @ CHR '':'' # rest"
    using takeWhile_dropWhile_id [of ?P s] n d by simp
  then show ?thesis by simp
qed

lemma take_c_str: "n \<le> length (c_str s) \<Longrightarrow> take n (c_str s) = take n s"
proof -
  assume n: "n \<le> length (c_str s)"
  have "s = c_str s @ dropWhile (\<lambda>c. c \<noteq> CHR 0x00) s"
    by (simp add: c_str_def)
  then have "take n s = take n (c_str s @ dropWhile (\<lambda>c. c \<noteq> CHR 0x00) s)"
    by simp
  also have "\<dots> = take n (c_str s)"
    using n by simp
  finally show ?thesis by simp
qed

lemma not_use_cbc_line:
  assumes "take 8 l \<noteq> ''use-cbc:''"
    and "sscanf_name_value (c_str (l @ [CHR 0x0A])) = (2, name, val)"
  shows "name \<noteq> ''use-cbc''"
proof
  assume u: "name = ''use-cbc''"
  let ?s = "c_str (l @ [CHR 0x0A])"
  have n8: "Suc (length name) = 8" and nc: "name @ [CHR '':''] = ''use-cbc:''"
    using u by simp_all
  have p: "take 8 ?s = ''use-cbc:''"
    using sscanf_name_prefix [OF assms(2)] unfolding n8 nc .
  then have "length (take 8 ?s) = 8" by simp
  then have "8 \<le> length ?s" by simp
  then have q: "take 8 (l @ [CHR 0x0A]) = ''use-cbc:''"
    using take_c_str [of 8 "l @ [CHR 0x0A]"] p by simp
  show False
  proof (cases "8 \<le> length l")
    case True
    then show ?thesis using q assms(1) by simp
  next
    case False
    then have "take 8 (l @ [CHR 0x0A]) = l @ [CHR 0x0A]" by simp
    then have "CHR 0x0A \<in> set ''use-cbc:''" using q by (metis in_set_conv_decomp)
    then show ?thesis by simp
  qed
qed

lemma readSuperBlock1_line_use_cbc:
  assumes "v \<noteq> []" and "\<forall>c\<in>set v. \<not> isspace c \<and> c \<noteq> CHR 0x00"
  shows "hdr_parms (readSuperBlock1_line env (''use-cbc: '' @ v @ [CHR 0x0A]) h) =
     (hdr_parms h)\<lparr>flCryptoFlags :=
        (if v = ''1'' then flCryptoFlags (hdr_parms h) OR CCRYPT_USE_CBC env
         else flCryptoFlags (hdr_parms h) AND NOT (CCRYPT_USE_CBC env))\<rparr>"
  unfolding readSuperBlock1_line_def sscanf_use_cbc_line [OF assms] by simp

lemma readSuperBlock1_line_not_use_cbc:
  assumes "take 8 l \<noteq> ''use-cbc:''"
  shows "hdr_parms (readSuperBlock1_line env (l @ [CHR 0x0A]) h) = hdr_parms h"
proof (cases "sscanf_name_value (c_str (l @ [CHR 0x0A]))")
  case (fields n name val)
  obtain m c k b where s: "sscanf_cipher val (szCipher h, hdr_cbKey h, hdr_cbBlock h) = (m, c, k, b)"
    by (cases "sscanf_cipher val (szCipher h, hdr_cbKey h, hdr_cbBlock h)")
  have "name \<noteq> ''use-cbc''" if "n = 2"
    using not_use_cbc_line [OF assms] fields that by simp
  then show ?thesis
    unfolding readSuperBlock1_line_def fields
    by (auto simp: s Let_def)
qed

lemma fold_lines_not_use_cbc:
  assumes "\<forall>l\<in>set ls. take 8 l \<noteq> ''use-cbc:''"
  shows "hdr_parms (fold (\<lambda>l. readSuperBlock1_line env (l @ [CHR 0x0A])) ls h) = hdr_parms h"
  using assms
  by (induction ls arbitrary: h) (simp_all add: readSuperBlock1_line_not_use_cbc)

text \<open>The parameter block after the lines of a header whose last \<^verbatim>\<open>use-cbc\<close> line is
  \<^verbatim>\<open>use-cbc: v\<close>.\<close>

lemma header_parms:
  assumes "\<forall>l\<in>set (pre @ post). CHR 0x0A \<notin> set l \<and> length l < 255"
    and "v \<noteq> []" and "\<forall>c\<in>set v. \<not> isspace c \<and> c \<noteq> CHR 0x00" and "length v < 246"
    and "\<forall>l\<in>set post. take 8 l \<noteq> ''use-cbc:''"
  shows "hdr_parms (readSuperBlock1_lines env
            (text_of (octets (lines_text (pre @ [''use-cbc: '' @ v] @ post))))
            \<lparr>szCipher = [], hdr_cbKey = 0, hdr_cbBlock = 0, hdr_parms = pParms\<rparr>) =
         pParms\<lparr>flCryptoFlags :=
           (if v = ''1'' then flCryptoFlags pParms OR CCRYPT_USE_CBC env
            else flCryptoFlags pParms AND NOT (CCRYPT_USE_CBC env))\<rparr>"
proof -
  let ?f = "\<lambda>l. readSuperBlock1_line env (l @ [CHR 0x0A])"
  let ?h0 = "\<lparr>szCipher = [], hdr_cbKey = 0, hdr_cbBlock = 0, hdr_parms = pParms\<rparr>"
  let ?u = "''use-cbc: '' @ v"
  let ?h1 = "fold ?f pre ?h0"
  let ?c = "CCRYPT_USE_CBC env"
  have nl: "isspace (CHR 0x0A)" by (simp add: isspace_def)
  have u: "CHR 0x0A \<notin> set ?u \<and> length ?u < 255"
    using assms(3,4) nl by auto
  have bounded: "\<forall>l\<in>set (pre @ [?u] @ post). CHR 0x0A \<notin> set l \<and> length l < 255"
    using assms(1) u by auto
  have "readSuperBlock1_lines env (lines_text (pre @ [?u] @ post)) ?h0 =
      fold ?f (pre @ [?u] @ post) ?h0"
    by (rule readSuperBlock1_lines_fold [OF bounded])
  also have "\<dots> = fold ?f post (?f ?u ?h1)"
    by simp
  finally have "hdr_parms (readSuperBlock1_lines env (lines_text (pre @ [?u] @ post)) ?h0) =
      hdr_parms (?f ?u ?h1)"
    by (simp add: fold_lines_not_use_cbc [OF assms(5)])
  also have "\<dots> = (hdr_parms ?h1)\<lparr>flCryptoFlags :=
        (if v = ''1'' then flCryptoFlags (hdr_parms ?h1) OR ?c
         else flCryptoFlags (hdr_parms ?h1) AND NOT ?c)\<rparr>"
    using readSuperBlock1_line_use_cbc [OF assms(2,3), of env ?h1] by simp
  also have "\<dots> = pParms\<lparr>flCryptoFlags :=
        (if v = ''1'' then flCryptoFlags pParms OR ?c else flCryptoFlags pParms AND NOT ?c)\<rparr>"
    using fold_lines_cbc_only [of env ?h0 pre]
    by (cases pParms; cases "hdr_parms ?h1") (simp add: cbc_only_def)
  finally show ?thesis
    by (simp add: text_of_octets)
qed

lemma sscanf_use_cbc_1: "sscanf_name_value (c_str (''use-cbc: 1'' @ [CHR 0x0A])) = (2, ''use-cbc'', ''1'')"
  by code_simp

lemma sscanf_use_cbc_0: "sscanf_name_value (c_str (''use-cbc: 0'' @ [CHR 0x0A])) = (2, ''use-cbc'', ''0'')"
  by code_simp

lemma open_parms_after_header:
  assumes "sysAllocSecureMem w = (True, w1)"
    and "length basePath + length (SUPERBLOCK1_NAME env) < MAX_VOLUME_BASE_PATH_NAME env + 128"
    and "fopen_r (basePath @ SUPERBLOCK1_NAME env) w1 = (Some content, w2)"
    and "fclose w2 = (False, w3)"
    and "coreReadSuperBlock env basePath pszKey papCipher pParms w =
           Some (cr, ppSuperBlock, pParms', w')"
  shows "pParms' = hdr_parms (readSuperBlock1_lines env (text_of content)
            \<lparr>szCipher = [], hdr_cbKey = 0, hdr_cbBlock = 0, hdr_parms = pParms\<rparr>)"
proof -
  let ?sb = "(uninit env)\<lparr>pszBasePath := basePath\<rparr>"
  let ?p = "hdr_parms (readSuperBlock1_lines env (text_of content)
            \<lparr>szCipher = [], hdr_cbKey = 0, hdr_cbBlock = 0, hdr_parms = pParms\<rparr>)"
  have p1: "p1 = ?p" if "readSuperBlock1 env ?sb pszKey pParms papCipher w1 = Some (c, s, p1, v)"
    for c s p1 v
    using readSuperBlock1_parms [of ?sb env w1 content w2 w3 pszKey pParms papCipher c s p1 v]
      assms(2-4) that by simp
  show ?thesis
    using assms(1,5) p1
    by (auto simp: coreReadSuperBlock_def Let_def split: if_splits option.splits prod.splits)
qed

lemma demo_header_as_lines:
  "demo_header = octets (lines_text ([''cipher: toy-64-64''] @ [''use-cbc: '' @ ''1''] @ []))"
  "demo_header_noblock = octets (lines_text ([''cipher: toy-64-0''] @ [''use-cbc: '' @ ''1''] @ []))"
  "demo_header_clear =
     octets (lines_text ([''use-cbc: 1''] @ [''use-cbc: '' @ ''0''] @ [''cipher: toy-64-64'']))"
  by (simp_all add: demo_header_def demo_header_noblock_def demo_header_clear_def lines_text_def)

lemma demo_header_clear_lines:
  "readSuperBlock1_lines demo_env (text_of demo_header_clear)
     \<lparr>szCipher = [], hdr_cbKey = 0, hdr_cbBlock = 0, hdr_parms = demo_parms_both\<rparr> =
   \<lparr>szCipher = ''toy'', hdr_cbKey = 8, hdr_cbBlock = 8,
    hdr_parms = \<lparr>flCryptoFlags = 2, fReadOnly = False\<rparr>\<rparr>"
  by code_simp

lemma demo_open_noblock:
  "coreReadSuperBlock demo_env ''v/'' ''secret'' [\<lparr>pszID = ''toy''\<rparr>] demo_parms
     (demo_world ((Map.empty(''v/SUPERBLK.2'' \<mapsto> demo_record_bad))
                    (''v/SUPERBLK.1'' \<mapsto> demo_header_noblock)) []) =
   Some (CORERC_OTHER 7, None, demo_parms_cbc,
     demo_world ((Map.empty(''v/SUPERBLK.2'' \<mapsto> demo_record_bad))
                    (''v/SUPERBLK.1'' \<mapsto> demo_header_noblock)) [])"
proof -
  let ?fs = "(Map.empty(''v/SUPERBLK.2'' \<mapsto> demo_record_bad))
               (''v/SUPERBLK.1'' \<mapsto> demo_header_noblock)"
  let ?w = "demo_world ?fs []"
  let ?w1 = "?w\<lparr>secure_blocks := 1\<rparr>"
  let ?sb2 = "demo_sb1_noblock
      \<lparr>magic := 1, version := 3, flFlags := 5, idRoot := 9,
       szLabel := [65, 66, 0, 0], szDescription := [67, 0, 0, 0, 0, 0, 0, 0]\<rparr>"
  have h1: "sysAllocSecureMem ?w = (True, ?w1)"
    by (simp add: sysAllocSecureMem_def pop_fault_def demo_world_def)
  have h2: "readSuperBlock1 demo_env ((uninit demo_env)\<lparr>pszBasePath := ''v/''\<rparr>) ''secret''
      demo_parms [\<lparr>pszID = ''toy''\<rparr>] ?w1 =
      Some (CORERC_OK, demo_sb1_noblock, demo_parms_cbc, ?w1)"
    by (simp add: demo_world_def demo_env_sel demo_readSuperBlock1_noblock demo_parms_cbc_def)
  have b: "pszBasePath demo_sb1_noblock = ''v/''"
    by (simp add: demo_sb1_noblock_def)
  have h3: "readSuperBlock2 demo_env demo_sb1_noblock demo_parms_cbc ?w1 = (CORERC_OK, ?sb2, ?w1)"
    by (simp add: demo_world_def demo_readSuperBlock2_bad [OF b])
  have h4: "createVolume demo_env ?sb2 demo_parms_cbc =
      (CORERC_OTHER 7, ?sb2\<lparr>pVolume := demo_parms_cbc\<rparr>)"
    by (simp add: createVolume_def demo_env_sel demo_sb1_noblock_def)
  have fr: "sysFreeSecureMem ?w1 = ?w"
    by (simp add: sysFreeSecureMem_def demo_world_def)
  show ?thesis
    unfolding coreReadSuperBlock_steps [OF demo_layout h1 h2 h3 h4]
    using fr by simp
qed

text \<open>
  C10: \<^verbatim>\<open>coreReadSuperBlock\<close> changes the caller's \<^verbatim>\<open>CryptedVolumeParms\<close> in place. When the
  header file is read and its last \<^verbatim>\<open>use-cbc\<close> line is \<^verbatim>\<open>use-cbc: v\<close> (any lines before it,
  and after it lines that do not start with \<^verbatim>\<open>use-cbc:\<close>), then whatever the call returns
  (success, or any error with or without a superblock: unknown cipher, key construction,
  opening the volume, reading the record), \<^verbatim>\<open>*pParms\<close> is afterwards the caller's block with
  the \<open>CCRYPT_USE_CBC\<close> bit of \<^verbatim>\<open>flCryptoFlags\<close> set if \<open>v\<close> is \<^verbatim>\<open>1\<close> and cleared otherwise;
  nothing else in it has changed and nothing restores it.
\<close>

theorem coreReadSuperBlock_parms_persist:
  assumes "sysAllocSecureMem w = (True, w1)"
    and "length basePath + length (SUPERBLOCK1_NAME env) < MAX_VOLUME_BASE_PATH_NAME env + 128"
    and "fopen_r (basePath @ SUPERBLOCK1_NAME env) w1 =
           (Some (octets (lines_text (pre @ [''use-cbc: '' @ v] @ post))), w2)"
    and "fclose w2 = (False, w3)"
    and "\<forall>l\<in>set (pre @ post). CHR 0x0A \<notin> set l \<and> length l < 255"
    and "v \<noteq> []" and "\<forall>c\<in>set v. \<not> isspace c \<and> c \<noteq> CHR 0x00" and "length v < 246"
    and "\<forall>l\<in>set post. take 8 l \<noteq> ''use-cbc:''"
    and "coreReadSuperBlock env basePath pszKey papCipher pParms w =
           Some (cr, ppSuperBlock, pParms', w')"
  shows "pParms' = pParms\<lparr>flCryptoFlags :=
           (if v = ''1'' then flCryptoFlags pParms OR CCRYPT_USE_CBC env
            else flCryptoFlags pParms AND NOT (CCRYPT_USE_CBC env))\<rparr>"
  unfolding open_parms_after_header [OF assms(1-4,10)]
  by (rule header_parms [OF assms(5-9)])

theorem coreReadSuperBlock_parms_persist_witness:
  "coreReadSuperBlock demo_env ''v/'' ''secret'' [\<lparr>pszID = ''aes''\<rparr>] demo_parms
     (demo_world (Map.empty(''v/SUPERBLK.1'' \<mapsto> demo_header)) []) =
   Some (CORERC_UNKNOWN_CIPHER, None, demo_parms_cbc,
     demo_world (Map.empty(''v/SUPERBLK.1'' \<mapsto> demo_header)) [])
   \<and> demo_parms_cbc = demo_parms\<lparr>flCryptoFlags := flCryptoFlags demo_parms OR 1\<rparr>
   \<and> flCryptoFlags demo_parms = 0 \<and> flCryptoFlags demo_parms_cbc = 1
   \<and> coreReadSuperBlock demo_env ''v/'' ''secret'' [\<lparr>pszID = ''toy''\<rparr>] demo_parms
     (demo_world ((Map.empty(''v/SUPERBLK.2'' \<mapsto> demo_record_bad))
                    (''v/SUPERBLK.1'' \<mapsto> demo_header_noblock)) []) =
   Some (CORERC_OTHER 7, None, demo_parms_cbc,
     demo_world ((Map.empty(''v/SUPERBLK.2'' \<mapsto> demo_record_bad))
                    (''v/SUPERBLK.1'' \<mapsto> demo_header_noblock)) [])
   \<and> coreReadSuperBlock demo_env ''v/'' ''secret'' [\<lparr>pszID = ''aes''\<rparr>] demo_parms_both
     (demo_world (Map.empty(''v/SUPERBLK.1'' \<mapsto> demo_header_clear)) []) =
   Some (CORERC_UNKNOWN_CIPHER, None, \<lparr>flCryptoFlags = 2, fReadOnly = False\<rparr>,
     demo_world (Map.empty(''v/SUPERBLK.1'' \<mapsto> demo_header_clear)) [])
   \<and> \<lparr>flCryptoFlags = 2, fReadOnly = False\<rparr> =
       demo_parms_both\<lparr>flCryptoFlags := flCryptoFlags demo_parms_both AND NOT 1\<rparr>
   \<and> flCryptoFlags demo_parms_both = 3"
proof -
  have sp: "\<forall>c\<in>set ''1''. \<not> isspace c \<and> c \<noteq> CHR 0x00" "\<forall>c\<in>set ''0''. \<not> isspace c \<and> c \<noteq> CHR 0x00"
    by (simp_all add: isspace_def)
  have h2: "length ''v/'' + length (SUPERBLOCK1_NAME demo_env)
      < MAX_VOLUME_BASE_PATH_NAME demo_env + 128"
    by (simp add: demo_env_sel)
  have ne: "''1'' \<noteq> []" "''0'' \<noteq> []" and len: "length ''1'' < 246" "length ''0'' < 246"
    by simp_all
  have nopost: "\<forall>l\<in>set []. take 8 l \<noteq> ''use-cbc:''"
    by simp

  let ?wa = "demo_world (Map.empty(''v/SUPERBLK.1'' \<mapsto> demo_header)) []"
  let ?wa1 = "?wa\<lparr>secure_blocks := 1\<rparr>"
  let ?ha = "\<lparr>szCipher = ''toy'', hdr_cbKey = 8, hdr_cbBlock = 8, hdr_parms = demo_parms_cbc\<rparr>"
  have a1: "sysAllocSecureMem ?wa = (True, ?wa1)"
    by (simp add: sysAllocSecureMem_def pop_fault_def demo_world_def)
  have a3: "fopen_r (''v/'' @ SUPERBLOCK1_NAME demo_env) ?wa1 = (Some demo_header, ?wa1)"
    by (simp add: fopen_r_def pop_fault_def demo_world_def demo_env_sel)
  have a3': "fopen_r (''v/'' @ SUPERBLOCK1_NAME demo_env) ?wa1 =
      (Some (octets (lines_text ([''cipher: toy-64-64''] @ [''use-cbc: '' @ ''1''] @ []))), ?wa1)"
    using a3 unfolding demo_header_as_lines(1) [symmetric] .
  have a4: "fclose ?wa1 = (False, ?wa1)"
    by (simp add: fclose_def pop_fault_def demo_world_def)
  have a5: "?ha = readSuperBlock1_lines demo_env (text_of demo_header)
      \<lparr>szCipher = [], hdr_cbKey = 0, hdr_cbBlock = 0, hdr_parms = demo_parms\<rparr>"
    by (simp add: demo_header_lines demo_parms_cbc_def)
  have a6: "findCipher [\<lparr>pszID = ''aes''\<rparr>] (szCipher ?ha) = None"
    by simp
  have afr: "sysFreeSecureMem ?wa1 = ?wa"
    by (simp add: sysFreeSecureMem_def demo_world_def)
  have runa: "coreReadSuperBlock demo_env ''v/'' ''secret'' [\<lparr>pszID = ''aes''\<rparr>] demo_parms ?wa =
      Some (CORERC_UNKNOWN_CIPHER, None, demo_parms_cbc, ?wa)"
    using open_unknown_cipher_result [OF demo_layout a1 h2 a3 a4 a5 a6, of "''secret''"] afr
    by simp
  have a7: "\<forall>l\<in>set ([''cipher: toy-64-64''] @ []). CHR 0x0A \<notin> set l \<and> length l < 255"
    by simp
  have ca: "demo_parms_cbc = demo_parms\<lparr>flCryptoFlags := flCryptoFlags demo_parms OR 1\<rparr>"
    using coreReadSuperBlock_parms_persist
      [OF a1 h2 a3' a4 a7 ne(1) sp(1) len(1) nopost runa]
    by (simp add: demo_env_sel)

  let ?wb = "demo_world ((Map.empty(''v/SUPERBLK.2'' \<mapsto> demo_record_bad))
                    (''v/SUPERBLK.1'' \<mapsto> demo_header_noblock)) []"
  let ?wb1 = "?wb\<lparr>secure_blocks := 1\<rparr>"
  have b1: "sysAllocSecureMem ?wb = (True, ?wb1)"
    by (simp add: sysAllocSecureMem_def pop_fault_def demo_world_def)
  have b3: "fopen_r (''v/'' @ SUPERBLOCK1_NAME demo_env) ?wb1 = (Some demo_header_noblock, ?wb1)"
    by (simp add: fopen_r_def pop_fault_def demo_world_def demo_env_sel)
  have b3': "fopen_r (''v/'' @ SUPERBLOCK1_NAME demo_env) ?wb1 =
      (Some (octets (lines_text ([''cipher: toy-64-0''] @ [''use-cbc: '' @ ''1''] @ []))), ?wb1)"
    using b3 unfolding demo_header_as_lines(2) [symmetric] .
  have b4: "fclose ?wb1 = (False, ?wb1)"
    by (simp add: fclose_def pop_fault_def demo_world_def)
  have b7: "\<forall>l\<in>set ([''cipher: toy-64-0''] @ []). CHR 0x0A \<notin> set l \<and> length l < 255"
    by simp
  have cb: "demo_parms_cbc = demo_parms\<lparr>flCryptoFlags := flCryptoFlags demo_parms OR 1\<rparr>"
    using coreReadSuperBlock_parms_persist
      [OF b1 h2 b3' b4 b7 ne(1) sp(1) len(1) nopost
        demo_open_noblock]
    by (simp add: demo_env_sel)

  let ?wc = "demo_world (Map.empty(''v/SUPERBLK.1'' \<mapsto> demo_header_clear)) []"
  let ?wc1 = "?wc\<lparr>secure_blocks := 1\<rparr>"
  let ?hc = "\<lparr>szCipher = ''toy'', hdr_cbKey = 8, hdr_cbBlock = 8,
      hdr_parms = \<lparr>flCryptoFlags = 2, fReadOnly = False\<rparr>\<rparr>"
  have c1: "sysAllocSecureMem ?wc = (True, ?wc1)"
    by (simp add: sysAllocSecureMem_def pop_fault_def demo_world_def)
  have c3: "fopen_r (''v/'' @ SUPERBLOCK1_NAME demo_env) ?wc1 = (Some demo_header_clear, ?wc1)"
    by (simp add: fopen_r_def pop_fault_def demo_world_def demo_env_sel)
  have c3': "fopen_r (''v/'' @ SUPERBLOCK1_NAME demo_env) ?wc1 =
      (Some (octets (lines_text ([''use-cbc: 1''] @ [''use-cbc: '' @ ''0''] @ [''cipher: toy-64-64'']))), ?wc1)"
    using c3 unfolding demo_header_as_lines(3) [symmetric] .
  have c4: "fclose ?wc1 = (False, ?wc1)"
    by (simp add: fclose_def pop_fault_def demo_world_def)
  have c5: "?hc = readSuperBlock1_lines demo_env (text_of demo_header_clear)
      \<lparr>szCipher = [], hdr_cbKey = 0, hdr_cbBlock = 0, hdr_parms = demo_parms_both\<rparr>"
    by (simp add: demo_header_clear_lines)
  have c6: "findCipher [\<lparr>pszID = ''aes''\<rparr>] (szCipher ?hc) = None"
    by simp
  have cfr: "sysFreeSecureMem ?wc1 = ?wc"
    by (simp add: sysFreeSecureMem_def demo_world_def)
  have runc: "coreReadSuperBlock demo_env ''v/'' ''secret'' [\<lparr>pszID = ''aes''\<rparr>] demo_parms_both ?wc =
      Some (CORERC_UNKNOWN_CIPHER, None, \<lparr>flCryptoFlags = 2, fReadOnly = False\<rparr>, ?wc)"
    using open_unknown_cipher_result [OF demo_layout c1 h2 c3 c4 c5 c6, of "''secret''"] cfr
    by simp
  have c7: "\<forall>l\<in>set ([''use-cbc: 1''] @ [''cipher: toy-64-64'']).
      CHR 0x0A \<notin> set l \<and> length l < 255"
    by simp
  have c8: "\<forall>l\<in>set [''cipher: toy-64-64'']. take 8 l \<noteq> ''use-cbc:''"
    by simp
  have cc: "\<lparr>flCryptoFlags = 2, fReadOnly = False\<rparr> =
      demo_parms_both\<lparr>flCryptoFlags := flCryptoFlags demo_parms_both AND NOT 1\<rparr>"
    using coreReadSuperBlock_parms_persist
      [OF c1 h2 c3' c4 c7 ne(2) sp(2) len(2) c8 runc]
    by (simp add: demo_env_sel)

  have f: "flCryptoFlags demo_parms = 0" "flCryptoFlags demo_parms_cbc = 1"
    "flCryptoFlags demo_parms_both = 3"
    by (simp_all add: demo_parms_def demo_parms_cbc_def demo_parms_both_def)
  show ?thesis
    using runa ca f demo_open_noblock runc cc by blast
qed

text \<open>
  C3, as the claim states it, fails. First input: the record decrypts without error to
  magic 1 and version 3, where the magic is 7 and the current version 2; the version
  exceeds the current one, yet the code tests the magic first and returns
  \<open>CORERC_BAD_SUPERBLOCK\<close>, not \<open>CORERC_BAD_VERSION\<close>. Second input: the same record, but
  the volume cannot be opened; the code returns the error of \<^verbatim>\<open>createVolume\<close> and leaves
  the null pointer in \<^verbatim>\<open>*ppSuperBlock\<close>.
\<close>

theorem coreReadSuperBlock_validation_counterexample:
  "coreReadSuperBlock demo_env ''v/'' ''secret'' [\<lparr>pszID = ''toy''\<rparr>] demo_parms
     (demo_world ((Map.empty(''v/SUPERBLK.2'' \<mapsto> demo_record_bad))
                    (''v/SUPERBLK.1'' \<mapsto> demo_header)) []) =
   Some (CORERC_BAD_SUPERBLOCK, Some (demo_sb_bad\<lparr>pVolume := demo_parms_cbc\<rparr>), demo_parms_cbc,
     (demo_world ((Map.empty(''v/SUPERBLK.2'' \<mapsto> demo_record_bad))
                    (''v/SUPERBLK.1'' \<mapsto> demo_header)) [])\<lparr>secure_blocks := 1\<rparr>)
   \<and> version demo_sb_bad = 3 \<and> SBV_CURRENT demo_env = 2
   \<and> coreReadSuperBlock demo_env ''v/'' ''secret'' [\<lparr>pszID = ''toy''\<rparr>] demo_parms
     (demo_world ((Map.empty(''v/SUPERBLK.2'' \<mapsto> demo_record_bad))
                    (''v/SUPERBLK.1'' \<mapsto> demo_header_noblock)) []) =
   Some (CORERC_OTHER 7, None, demo_parms_cbc,
     demo_world ((Map.empty(''v/SUPERBLK.2'' \<mapsto> demo_record_bad))
                    (''v/SUPERBLK.1'' \<mapsto> demo_header_noblock)) [])"
proof (intro conjI)
  let ?fs = "(Map.empty(''v/SUPERBLK.2'' \<mapsto> demo_record_bad))(''v/SUPERBLK.1'' \<mapsto> demo_header)"
  let ?w = "demo_world ?fs []"
  let ?w1 = "?w\<lparr>secure_blocks := 1\<rparr>"
  have h1: "sysAllocSecureMem ?w = (True, ?w1)"
    by (simp add: sysAllocSecureMem_def pop_fault_def demo_world_def)
  have h2: "readSuperBlock1 demo_env ((uninit demo_env)\<lparr>pszBasePath := ''v/''\<rparr>) ''secret''
      demo_parms [\<lparr>pszID = ''toy''\<rparr>] ?w1 = Some (CORERC_OK, demo_sb1, demo_parms_cbc, ?w1)"
    by (simp add: demo_world_def demo_env_sel demo_readSuperBlock1 demo_parms_cbc_def)
  have b: "pszBasePath demo_sb1 = ''v/''"
    by (simp add: demo_sb1_def)
  have h3: "readSuperBlock2 demo_env demo_sb1 demo_parms_cbc ?w1 = (CORERC_OK, demo_sb_bad, ?w1)"
    by (simp add: demo_world_def demo_readSuperBlock2_bad [OF b] demo_sb_bad_def)
  have h4: "createVolume demo_env demo_sb_bad demo_parms_cbc =
      (CORERC_OK, demo_sb_bad\<lparr>pVolume := demo_parms_cbc\<rparr>)"
    by (simp add: createVolume_def demo_env_sel demo_sb_bad_def demo_sb1_def)
  show "coreReadSuperBlock demo_env ''v/'' ''secret'' [\<lparr>pszID = ''toy''\<rparr>] demo_parms ?w =
      Some (CORERC_BAD_SUPERBLOCK, Some (demo_sb_bad\<lparr>pVolume := demo_parms_cbc\<rparr>),
        demo_parms_cbc, ?w1)"
    unfolding coreReadSuperBlock_steps [OF demo_layout h1 h2 h3 h4]
    by (simp add: demo_sb_bad_def demo_env_sel)
next
  show "version demo_sb_bad = 3"
    by (simp add: demo_sb_bad_def)
next
  show "SBV_CURRENT demo_env = 2"
    by (simp add: demo_env_sel)
next
  let ?fs = "(Map.empty(''v/SUPERBLK.2'' \<mapsto> demo_record_bad))
               (''v/SUPERBLK.1'' \<mapsto> demo_header_noblock)"
  let ?w = "demo_world ?fs []"
  let ?w1 = "?w\<lparr>secure_blocks := 1\<rparr>"
  let ?sb2 = "demo_sb1_noblock
      \<lparr>magic := 1, version := 3, flFlags := 5, idRoot := 9,
       szLabel := [65, 66, 0, 0], szDescription := [67, 0, 0, 0, 0, 0, 0, 0]\<rparr>"
  have h1: "sysAllocSecureMem ?w = (True, ?w1)"
    by (simp add: sysAllocSecureMem_def pop_fault_def demo_world_def)
  have h2: "readSuperBlock1 demo_env ((uninit demo_env)\<lparr>pszBasePath := ''v/''\<rparr>) ''secret''
      demo_parms [\<lparr>pszID = ''toy''\<rparr>] ?w1 =
      Some (CORERC_OK, demo_sb1_noblock, demo_parms_cbc, ?w1)"
    by (simp add: demo_world_def demo_env_sel demo_readSuperBlock1_noblock demo_parms_cbc_def)
  have b: "pszBasePath demo_sb1_noblock = ''v/''"
    by (simp add: demo_sb1_noblock_def)
  have h3: "readSuperBlock2 demo_env demo_sb1_noblock demo_parms_cbc ?w1 = (CORERC_OK, ?sb2, ?w1)"
    by (simp add: demo_world_def demo_readSuperBlock2_bad [OF b])
  have h4: "createVolume demo_env ?sb2 demo_parms_cbc =
      (CORERC_OTHER 7, ?sb2\<lparr>pVolume := demo_parms_cbc\<rparr>)"
    by (simp add: createVolume_def demo_env_sel demo_sb1_noblock_def)
  have fr: "sysFreeSecureMem ?w1 = ?w"
    by (simp add: sysFreeSecureMem_def demo_world_def)
  show "coreReadSuperBlock demo_env ''v/'' ''secret'' [\<lparr>pszID = ''toy''\<rparr>] demo_parms ?w =
      Some (CORERC_OTHER 7, None, demo_parms_cbc, ?w)"
    unfolding coreReadSuperBlock_steps [OF demo_layout h1 h2 h3 h4]
    using fr by simp
qed

text \<open>
  C3, amended: for every open call in which \<^verbatim>\<open>readSuperBlock1\<close> succeeded, the encrypted
  record was read and decrypted without error and the volume was opened,
  \<^verbatim>\<open>coreReadSuperBlock\<close> stores the superblock through \<^verbatim>\<open>ppSuperBlock\<close> and returns
  \<open>CORERC_BAD_SUPERBLOCK\<close> if the decrypted magic differs from \<open>SUPERBLOCK2_MAGIC\<close> (whatever
  the version), \<open>CORERC_BAD_VERSION\<close> if the magic is right and the decrypted version
  exceeds \<open>SBV_CURRENT\<close>, and \<open>CORERC_OK\<close> otherwise.
\<close>

theorem coreReadSuperBlock_validation:
  assumes "sizeof_SuperBlock2OnDisk env \<le> PAYLOAD_SIZE env"
    and "sysAllocSecureMem w = (True, w1)"
    and "readSuperBlock1 env ((uninit env)\<lparr>pszBasePath := basePath\<rparr>) pszKey pParms papCipher w1 =
           Some (CORERC_OK, sb1, pParms1, w2)"
    and "readSuperBlock2 env sb1 pParms1 w2 = (CORERC_OK, sb2, w3)"
    and "createVolume env sb2 pParms1 = (CORERC_OK, sb3)"
  shows "coreReadSuperBlock env basePath pszKey papCipher pParms w =
     Some (if magic sb2 \<noteq> SUPERBLOCK2_MAGIC env then CORERC_BAD_SUPERBLOCK
           else if version sb2 > SBV_CURRENT env then CORERC_BAD_VERSION
           else CORERC_OK,
           Some sb3, pParms1, w3)"
  using createVolume_fields [OF assms(5)]
  unfolding coreReadSuperBlock_steps [OF assms] by simp

theorem coreReadSuperBlock_validation_witness:
  "coreReadSuperBlock demo_env ''v/'' ''secret'' [\<lparr>pszID = ''toy''\<rparr>] demo_parms
     (demo_world ((Map.empty(''v/SUPERBLK.2'' \<mapsto> demo_record_new))
                    (''v/SUPERBLK.1'' \<mapsto> demo_header)) []) =
   Some (CORERC_BAD_VERSION, Some (demo_sb_new\<lparr>pVolume := demo_parms_cbc\<rparr>), demo_parms_cbc,
     (demo_world ((Map.empty(''v/SUPERBLK.2'' \<mapsto> demo_record_new))
                    (''v/SUPERBLK.1'' \<mapsto> demo_header)) [])\<lparr>secure_blocks := 1\<rparr>)"
proof -
  let ?fs = "(Map.empty(''v/SUPERBLK.2'' \<mapsto> demo_record_new))(''v/SUPERBLK.1'' \<mapsto> demo_header)"
  let ?w = "demo_world ?fs []"
  let ?w1 = "?w\<lparr>secure_blocks := 1\<rparr>"
  have h1: "sysAllocSecureMem ?w = (True, ?w1)"
    by (simp add: sysAllocSecureMem_def pop_fault_def demo_world_def)
  have h2: "readSuperBlock1 demo_env ((uninit demo_env)\<lparr>pszBasePath := ''v/''\<rparr>) ''secret''
      demo_parms [\<lparr>pszID = ''toy''\<rparr>] ?w1 = Some (CORERC_OK, demo_sb1, demo_parms_cbc, ?w1)"
    by (simp add: demo_world_def demo_env_sel demo_readSuperBlock1 demo_parms_cbc_def)
  have b: "pszBasePath demo_sb1 = ''v/''"
    by (simp add: demo_sb1_def)
  have h3: "readSuperBlock2 demo_env demo_sb1 demo_parms_cbc ?w1 = (CORERC_OK, demo_sb_new, ?w1)"
    by (simp add: demo_world_def demo_readSuperBlock2_new [OF b] demo_sb_new_def)
  have h4: "createVolume demo_env demo_sb_new demo_parms_cbc =
      (CORERC_OK, demo_sb_new\<lparr>pVolume := demo_parms_cbc\<rparr>)"
    by (simp add: createVolume_def demo_env_sel demo_sb_new_def demo_sb1_def)
  have m: "magic demo_sb_new = SUPERBLOCK2_MAGIC demo_env"
    by (simp add: demo_sb_new_def demo_env_sel)
  have v: "version demo_sb_new > SBV_CURRENT demo_env"
    by (simp add: demo_sb_new_def demo_env_sel)
  show ?thesis
    using coreReadSuperBlock_validation [OF demo_layout h1 h2 h3 h4] m v by simp
qed

text \<open>
  C5: on a superblock whose volume parameters have the read-only flag set,
  \<^verbatim>\<open>coreWriteSuperBlock\<close> returns \<open>CORERC_READ_ONLY\<close> whatever the flags; the superblock and
  the world (the two files, and the list of calls that may still fail: no call was made)
  are as before.
\<close>

theorem coreWriteSuperBlock_read_only:
  assumes "fReadOnly (coreQueryVolumeParms env (pVolume pSuperBlock))"
  shows "coreWriteSuperBlock env pSuperBlock flags w = (CORERC_READ_ONLY, pSuperBlock, w)"
  using assms by (simp add: coreWriteSuperBlock_def)

theorem coreWriteSuperBlock_read_only_witness:
  "fReadOnly (coreQueryVolumeParms demo_env (pVolume (demo_sb\<lparr>pVolume := demo_parms_ro\<rparr>)))
   \<and> coreWriteSuperBlock demo_env (demo_sb\<lparr>pVolume := demo_parms_ro\<rparr>) 0
       (demo_world ((Map.empty(''v/SUPERBLK.2'' \<mapsto> demo_record_new))
                      (''v/SUPERBLK.1'' \<mapsto> demo_header)) [True]) =
     (CORERC_READ_ONLY, demo_sb\<lparr>pVolume := demo_parms_ro\<rparr>,
       demo_world ((Map.empty(''v/SUPERBLK.2'' \<mapsto> demo_record_new))
                      (''v/SUPERBLK.1'' \<mapsto> demo_header)) [True])"
proof -
  have r: "fReadOnly (coreQueryVolumeParms demo_env (pVolume (demo_sb\<lparr>pVolume := demo_parms_ro\<rparr>)))"
    by (simp add: demo_env_sel demo_parms_ro_def)
  show ?thesis
    using r coreWriteSuperBlock_read_only [OF r] by simp
qed

subsection \<open>The encrypted record\<close>

lemma last_terminated: "length xs = n \<Longrightarrow> 0 < n \<Longrightarrow> last (xs[n - 1 := v]) = v"
proof -
  assume n: "length xs = n" "0 < n"
  then have "xs[n - 1 := v] \<noteq> []" by auto
  then have "last (xs[n - 1 := v]) = (xs[n - 1 := v]) ! (length (xs[n - 1 := v]) - 1)"
    by (rule last_conv_nth)
  also have "\<dots> = v" using n by simp
  finally show ?thesis .
qed

text \<open>
  C9: when the record file was opened, one sector read and the file closed, but
  \<^verbatim>\<open>coreDecryptSectorData\<close> reports an error, \<^verbatim>\<open>readSuperBlock2\<close> returns that error after it has
  stored magic, version, flags, root id, label and description out of the decrypted
  payload into the superblock; each string has its array's length and ends in a NUL.
\<close>

theorem readSuperBlock2_decrypt_error:
  assumes "length (pszBasePath sb) + length (SUPERBLOCK2_NAME env) < MAX_VOLUME_BASE_PATH_NAME env + 128"
    and "fopen_r (pszBasePath sb @ SUPERBLOCK2_NAME env) w = (Some content, w1)"
    and "fread_item (SECTOR_SIZE env) content w1 = (Some abSector, w2)"
    and "fclose w2 = (False, w3)"
    and "coreDecryptSectorData env abSector (pKey sb) (flCryptoFlags pParms) = (cr, sector)"
    and "cr \<noteq> CORERC_OK"
    and "sizeof_SuperBlock2OnDisk env \<le> length (payload sector)"
    and "0 < LABEL_SIZE env" and "0 < DESCRIPTION_SIZE env"
  shows "readSuperBlock2 env sb pParms w =
     (cr,
      sb\<lparr>magic := bytesToInt32 env (bytes_at 0 4 (payload sector)),
         version := bytesToInt32 env (bytes_at 4 4 (payload sector)),
         flFlags := bytesToInt32 env (bytes_at 8 4 (payload sector)),
         idRoot := bytesToInt32 env (bytes_at 12 4 (payload sector)),
         szLabel := (bytes_at label_offset (LABEL_SIZE env) (payload sector))[LABEL_SIZE env - 1 := 0],
         szDescription :=
           (bytes_at (description_offset env) (DESCRIPTION_SIZE env) (payload sector))
             [DESCRIPTION_SIZE env - 1 := 0]\<rparr>,
      w3)
   \<and> length (szLabel (fst (snd (readSuperBlock2 env sb pParms w)))) = LABEL_SIZE env
   \<and> last (szLabel (fst (snd (readSuperBlock2 env sb pParms w)))) = 0
   \<and> length (szDescription (fst (snd (readSuperBlock2 env sb pParms w)))) = DESCRIPTION_SIZE env
   \<and> last (szDescription (fst (snd (readSuperBlock2 env sb pParms w)))) = 0"
proof -
  let ?p = "payload sector"
  let ?lab = "(bytes_at label_offset (LABEL_SIZE env) ?p)[LABEL_SIZE env - 1 := 0]"
  let ?desc = "(bytes_at (description_offset env) (DESCRIPTION_SIZE env) ?p)[DESCRIPTION_SIZE env - 1 := 0]"
  have run: "readSuperBlock2 env sb pParms w =
     (cr,
      sb\<lparr>magic := bytesToInt32 env (bytes_at 0 4 ?p),
         version := bytesToInt32 env (bytes_at 4 4 ?p),
         flFlags := bytesToInt32 env (bytes_at 8 4 ?p),
         idRoot := bytesToInt32 env (bytes_at 12 4 ?p),
         szLabel := ?lab, szDescription := ?desc\<rparr>,
      w3)"
    using assms(1-5) by (simp add: readSuperBlock2_def Let_def)
  have ll0: "length (bytes_at label_offset (LABEL_SIZE env) ?p) = LABEL_SIZE env"
    using assms(7) by (simp add: bytes_at_def sizeof_SuperBlock2OnDisk_def description_offset_def)
  have dl0: "length (bytes_at (description_offset env) (DESCRIPTION_SIZE env) ?p) =
      DESCRIPTION_SIZE env"
    using assms(7) by (simp add: bytes_at_def sizeof_SuperBlock2OnDisk_def)
  have ll: "length ?lab = LABEL_SIZE env"
    using ll0 by simp
  have dl: "length ?desc = DESCRIPTION_SIZE env"
    using dl0 by simp
  have lz: "last ?lab = 0"
    by (rule last_terminated [OF ll0 assms(8)])
  have dz: "last ?desc = 0"
    by (rule last_terminated [OF dl0 assms(9)])
  show ?thesis
    unfolding run using ll dl lz dz by simp
qed

theorem readSuperBlock2_decrypt_error_witness:
  "readSuperBlock2 demo_env demo_sb1 demo_parms_cbc
     (demo_world (Map.empty(''v/SUPERBLK.2'' \<mapsto> demo_record_corrupt)) []) =
   (CORERC_OTHER 3,
    demo_sb1\<lparr>magic := 9, version := 8, flFlags := 7, idRoot := 6,
             szLabel := [65, 66, 67, 0], szDescription := [69, 70, 71, 72, 73, 74, 75, 0]\<rparr>,
    demo_world (Map.empty(''v/SUPERBLK.2'' \<mapsto> demo_record_corrupt)) [])"
proof -
  let ?w = "demo_world (Map.empty(''v/SUPERBLK.2'' \<mapsto> demo_record_corrupt)) []"
  let ?sector = "\<lparr>sector_random = [0, 255, 255, 255],
      payload = [9, 0, 0, 0, 8, 0, 0, 0, 7, 0, 0, 0, 6, 0, 0, 0,
        65, 66, 67, 68, 69, 70, 71, 72, 73, 74, 75, 76, 1, 2, 3, 4]\<rparr>"
  have b: "pszBasePath demo_sb1 = ''v/''"
    by (simp add: demo_sb1_def)
  have h1: "length (pszBasePath demo_sb1) + length (SUPERBLOCK2_NAME demo_env)
      < MAX_VOLUME_BASE_PATH_NAME demo_env + 128"
    by (simp add: b demo_env_sel)
  have h2: "fopen_r (pszBasePath demo_sb1 @ SUPERBLOCK2_NAME demo_env) ?w =
      (Some demo_record_corrupt, ?w)"
    by (simp add: b fopen_r_def pop_fault_def demo_world_def demo_env_sel)
  have h3: "fread_item (SECTOR_SIZE demo_env) demo_record_corrupt ?w =
      (Some demo_record_corrupt, ?w)"
    by (simp add: fread_item_def pop_fault_def demo_world_def demo_env_sel demo_record_corrupt_def)
  have h4: "fclose ?w = (False, ?w)"
    by (simp add: fclose_def pop_fault_def demo_world_def)
  have h5: "coreDecryptSectorData demo_env demo_record_corrupt (pKey demo_sb1)
      (flCryptoFlags demo_parms_cbc) = (CORERC_OTHER 3, ?sector)"
    by (simp add: demo_env_sel demo_record_corrupt_def)
  have h6: "CORERC_OTHER 3 \<noteq> CORERC_OK"
    by simp
  have h7: "sizeof_SuperBlock2OnDisk demo_env \<le> length (payload ?sector)"
    by (simp add: sizeof_SuperBlock2OnDisk_def description_offset_def label_offset_def demo_env_sel)
  have h8: "0 < LABEL_SIZE demo_env" and h9: "0 < DESCRIPTION_SIZE demo_env"
    by (simp_all add: demo_env_sel)
  show ?thesis
    using readSuperBlock2_decrypt_error [OF h1 h2 h3 h4 h5 h6 h7 h8 h9]
    by (simp add: demo_env_sel bytes_at_def label_offset_def description_offset_def
        demo_bytesToInt32_def)
qed

subsection \<open>Writing a superblock\<close>

lemma length_poke_ge: "length buf \<le> length (poke off bs buf)"
  by (simp add: poke_def)

lemma length_poke: "off + length bs \<le> length buf \<Longrightarrow> length (poke off bs buf) = length buf"
  by (simp add: poke_def)

lemma take_poke: "n \<le> off \<Longrightarrow> n \<le> length buf \<Longrightarrow> take n (poke off bs buf) = take n buf"
  by (simp add: poke_def min_def)

lemma drop_poke:
  "off + length bs \<le> n \<Longrightarrow> off \<le> length buf \<Longrightarrow> drop n (poke off bs buf) = drop n buf"
  by (simp add: poke_def)

lemma take_poke_here:
  "length buf \<ge> off + length bs \<Longrightarrow> take (off + length bs) (poke off bs buf) = take off buf @ bs"
  by (simp add: poke_def)

lemma fopen_w_keeps:
  "fopen_w name w = (r, w') \<Longrightarrow> entropy w' = entropy w \<and> entropy_pos w' = entropy_pos w"
  by (auto simp: fopen_w_def Let_def split: prod.splits if_splits dest: pop_fault_keeps)

lemma fput_keeps:
  "fput name bs w = (r, w') \<Longrightarrow> entropy w' = entropy w \<and> entropy_pos w' = entropy_pos w"
  by (auto simp: fput_def Let_def split: prod.splits if_splits dest: pop_fault_keeps)

lemma fclose_keeps:
  "fclose w = (r, w') \<Longrightarrow>
     entropy w' = entropy w \<and> entropy_pos w' = entropy_pos w \<and> files w' = files w"
  by (auto simp: fclose_def dest: pop_fault_keeps)

lemma snd_fclose_keeps:
  "entropy (snd (fclose w)) = entropy w"
  "entropy_pos (snd (fclose w)) = entropy_pos w"
  "files (snd (fclose w)) = files w"
  using fclose_keeps [of w "fst (fclose w)" "snd (fclose w)"] by simp_all

lemma fopen_w_file: "fopen_w name w = (True, w') \<Longrightarrow> files w' name = Some []"
  by (auto simp: fopen_w_def Let_def split: prod.splits if_splits)

lemma fput_file:
  "fput name bs w = (True, w') \<Longrightarrow> files w name = Some old \<Longrightarrow> files w' name = Some (old @ bs)"
  by (auto simp: fput_def Let_def split: prod.splits if_splits dest: pop_fault_keeps)

lemma writeSuperBlock1_keeps:
  "writeSuperBlock1 env sb pParms w = (cr, w') \<Longrightarrow>
     entropy w' = entropy w \<and> entropy_pos w' = entropy_pos w"
  by (auto simp: writeSuperBlock1_def Let_def snd_fclose_keeps
      split: prod.splits if_splits bool.splits
      dest!: fopen_w_keeps fput_keeps fclose_keeps)

lemma coreWriteSuperBlock_failed:
  "coreWriteSuperBlock env sb flags w = (cr, sb', w') \<Longrightarrow> cr \<noteq> CORERC_OK \<Longrightarrow> sb' = sb"
  by (auto simp: coreWriteSuperBlock_def Let_def split: prod.splits if_splits bool.splits)

lemma coreWriteSuperBlock_succeeded:
  assumes run: "coreWriteSuperBlock env sb flags w = (CORERC_OK, sb', w')"
  shows "sb' = sb\<lparr>version := SBV_CURRENT env, magic := SUPERBLOCK2_MAGIC env\<rparr>"
    and "files w' (pszBasePath sb @ SUPERBLOCK2_NAME env) =
          Some (coreEncryptSectorData env (buildSector env sb (drawn env w)) (pKey sb)
                  (flCryptoFlags (coreQueryVolumeParms env (pVolume sb))))"
proof -
  let ?p = "coreQueryVolumeParms env (pVolume sb)"
  let ?n = "pszBasePath sb @ SUPERBLOCK2_NAME env"
  define r1 where "r1 = (if flags AND CWS_NOWRITE_SUPERBLOCK1 env = 0
      then writeSuperBlock1 env sb ?p w else (CORERC_OK, w))"
  obtain cr1 w1 where r1: "r1 = (cr1, w1)" by (cases r1)
  have e1: "entropy w1 = entropy w \<and> entropy_pos w1 = entropy_pos w"
    using r1 writeSuperBlock1_keeps [of env sb ?p w cr1 w1]
    by (auto simp: r1_def split: if_splits)
  obtain ok2 w2 where r2: "fopen_w ?n w1 = (ok2, w2)" by (cases "fopen_w ?n w1")
  let ?rnd = "fst (sysGetRandomBits (RANDOM_SIZE env * 8) w2)"
  let ?w3 = "snd (sysGetRandomBits (RANDOM_SIZE env * 8) w2)"
  let ?crypted = "coreEncryptSectorData env (buildSector env sb ?rnd) (pKey sb) (flCryptoFlags ?p)"
  obtain ok4 w4 where r4: "fput ?n ?crypted ?w3 = (ok4, w4)" by (cases "fput ?n ?crypted ?w3")
  obtain eof w5 where r5: "fclose w4 = (eof, w5)" by (cases "fclose w4")
  have all: "ok2 \<and> ok4 \<and> \<not> eof \<and> w' = w5
      \<and> sb' = sb\<lparr>version := SBV_CURRENT env, magic := SUPERBLOCK2_MAGIC env\<rparr>"
    using run r1 r2 r4 r5 unfolding coreWriteSuperBlock_def Let_def r1_def [symmetric]
    by (auto split: prod.splits if_splits bool.splits)
  show "sb' = sb\<lparr>version := SBV_CURRENT env, magic := SUPERBLOCK2_MAGIC env\<rparr>"
    using all by simp
  have rnd: "?rnd = drawn env w"
    using e1 fopen_w_keeps [OF r2] by (simp add: sysGetRandomBits_def drawn_def)
  have f2: "files w2 ?n = Some []"
    using fopen_w_file [of ?n w1 w2] r2 all by simp
  have f3: "files ?w3 ?n = Some []"
    using f2 by (simp add: sysGetRandomBits_def)
  have f4: "files w4 ?n = Some ([] @ ?crypted)"
    using fput_file [of ?n ?crypted ?w3 w4 "[]"] r4 all f3 by simp
  have "files w' ?n = Some ?crypted"
    using f4 fclose_keeps [OF r5] all by simp
  then show "files w' ?n = Some (coreEncryptSectorData env (buildSector env sb (drawn env w))
      (pKey sb) (flCryptoFlags ?p))"
    by (simp add: rnd)
qed

text \<open>The start of the payload and its tail, whatever the superblock holds.\<close>

lemma buildSector_head:
  assumes "\<forall>v. length (int32ToBytes env v) = 4" and "8 \<le> PAYLOAD_SIZE env"
  shows "take 8 (payload (buildSector env sb rnd)) =
           int32ToBytes env (SUPERBLOCK2_MAGIC env) @ int32ToBytes env (SBV_CURRENT env)"
proof -
  let ?m = "int32ToBytes env (SUPERBLOCK2_MAGIC env)"
  let ?v = "int32ToBytes env (SBV_CURRENT env)"
  let ?b0 = "replicate (PAYLOAD_SIZE env) (0 :: octet)"
  let ?b1 = "poke 0 ?m ?b0"
  let ?b2 = "poke 4 ?v ?b1"
  have lm: "length ?m = 4" and lv: "length ?v = 4"
    using assms(1) by simp_all
  have l1: "length ?b1 = PAYLOAD_SIZE env"
    using assms(2) lm by (simp add: length_poke)
  have t1: "take 4 ?b1 = ?m"
    using take_poke_here [of 0 ?m ?b0] lm assms(2) by simp
  have "take (4 + length ?v) ?b2 = take 4 ?b1 @ ?v"
    by (rule take_poke_here) (use l1 lv assms(2) in simp)
  then have t2: "take 8 ?b2 = ?m @ ?v"
    using lv t1 by simp
  have l2: "8 \<le> length ?b2"
    using l1 lv assms(2) by (simp add: length_poke)
  have keep: "take 8 (poke off bs buf) = take 8 buf \<and> 8 \<le> length (poke off bs buf)"
    if "8 \<le> off" "8 \<le> length buf" for off and bs buf :: "octet list"
    using that take_poke [of 8 off buf bs] length_poke_ge [of buf off bs] by simp
  have o: "8 \<le> label_offset" "8 \<le> description_offset env"
    by (simp_all add: label_offset_def description_offset_def)
  show ?thesis
    unfolding buildSector_def strcpy_at_def
    using t2 l2 o by (simp add: keep)
qed

lemma buildSector_tail:
  assumes "\<forall>v. length (int32ToBytes env v) = 4"
    and "sizeof_SuperBlock2OnDisk env \<le> PAYLOAD_SIZE env"
    and "length (cstring (szLabel sb)) < LABEL_SIZE env"
    and "length (cstring (szDescription sb)) < DESCRIPTION_SIZE env"
  shows "drop (sizeof_SuperBlock2OnDisk env) (payload (buildSector env sb rnd)) =
           replicate (PAYLOAD_SIZE env - sizeof_SuperBlock2OnDisk env) 0"
    and "length (payload (buildSector env sb rnd)) = PAYLOAD_SIZE env"
proof -
  let ?S = "sizeof_SuperBlock2OnDisk env"
  let ?P = "PAYLOAD_SIZE env"
  have step: "drop ?S (poke off bs buf) = drop ?S buf \<and> length (poke off bs buf) = ?P"
    if "off + length bs \<le> ?S" "length buf = ?P" for off and bs buf :: "octet list"
    using that assms(2) drop_poke [of off bs ?S buf] length_poke [of off bs buf] by simp
  have S: "?S = 16 + LABEL_SIZE env + DESCRIPTION_SIZE env"
    by (simp add: sizeof_SuperBlock2OnDisk_def description_offset_def label_offset_def)
  let ?b0 = "replicate ?P (0 :: octet)"
  let ?b1 = "poke 0 (int32ToBytes env (SUPERBLOCK2_MAGIC env)) ?b0"
  let ?b2 = "poke 4 (int32ToBytes env (SBV_CURRENT env)) ?b1"
  let ?b3 = "poke 8 (int32ToBytes env (flFlags sb)) ?b2"
  let ?b4 = "poke 12 (int32ToBytes env (idRoot sb)) ?b3"
  let ?b5 = "poke label_offset (cstring (szLabel sb) @ [0]) ?b4"
  let ?b6 = "poke (description_offset env) (cstring (szDescription sb) @ [0]) ?b5"
  have s1: "drop ?S ?b1 = drop ?S ?b0 \<and> length ?b1 = ?P"
    by (rule step) (use assms(1) S in simp_all)
  have s2: "drop ?S ?b2 = drop ?S ?b1 \<and> length ?b2 = ?P"
    by (rule step) (use assms(1) S s1 in simp_all)
  have s3: "drop ?S ?b3 = drop ?S ?b2 \<and> length ?b3 = ?P"
    by (rule step) (use assms(1) S s2 in simp_all)
  have s4: "drop ?S ?b4 = drop ?S ?b3 \<and> length ?b4 = ?P"
    by (rule step) (use assms(1) S s3 in simp_all)
  have s5: "drop ?S ?b5 = drop ?S ?b4 \<and> length ?b5 = ?P"
    by (rule step) (use assms(3) S s4 in \<open>simp_all add: label_offset_def\<close>)
  have s6: "drop ?S ?b6 = drop ?S ?b5 \<and> length ?b6 = ?P"
    by (rule step)
       (use assms(4) S s5 in \<open>simp_all add: description_offset_def label_offset_def\<close>)
  have p: "payload (buildSector env sb rnd) = ?b6"
    by (simp add: buildSector_def strcpy_at_def)
  show "drop ?S (payload (buildSector env sb rnd)) = replicate (?P - ?S) 0"
    unfolding p using s1 s2 s3 s4 s5 s6 by simp
  show "length (payload (buildSector env sb rnd)) = ?P"
    unfolding p using s6 by simp
qed

lemma demo_buildSector:
  "buildSector demo_env demo_sb [255, 255, 255, 255] =
     \<lparr>sector_random = [255, 255, 255, 255],
      payload = [7, 0, 0, 0, 2, 0, 0, 0, 5, 0, 0, 0, 9, 0, 0, 0,
                 65, 66, 0, 0, 67, 0, 0, 0, 0, 0, 0, 0, 0, 0, 0, 0]\<rparr>"
  by code_simp

lemma demo_header_text:
  "octets (''cipher: '' @ ''toy'' @ ''-'' @ printf_d (int32 (8 * 8)) @ ''-'' @ printf_d (int32 (8 * 8))
        @ [CHR 0x0A])
     @ octets (''use-cbc: '' @ printf_d (sint ((1 :: 32 word) AND 1)) @ [CHR 0x0A]) = demo_header"
  by code_simp

lemma draw_4: "draw 4 src p = [src p, src (Suc p), src (Suc (Suc p)), src (Suc (Suc (Suc p)))]"
  by (simp add: eval_nat_numeral)

lemma demo_write:
  "coreWriteSuperBlock demo_env demo_sb 0 (demo_world Map.empty []) =
     (CORERC_OK, demo_sb\<lparr>version := 2, magic := 7\<rparr>,
      \<lparr>files = (Map.empty(''v/SUPERBLK.1'' \<mapsto> demo_header))(''v/SUPERBLK.2'' \<mapsto> demo_record_written),
       faults = [], secure_blocks = 0, entropy = (\<lambda>i. 255), entropy_pos = 4\<rparr>)"
proof -
  have sb: "pszBasePath demo_sb = ''v/''" "pVolume demo_sb = \<lparr>flCryptoFlags = 1, fReadOnly = False\<rparr>"
    "pKey demo_sb = \<lparr>pCipher = \<lparr>pszID = ''toy''\<rparr>, cbKey = 8, cbBlock = 8, pKeyData = []\<rparr>"
    by (simp_all add: demo_sb_def)
  have w1: "writeSuperBlock1 demo_env demo_sb \<lparr>flCryptoFlags = 1, fReadOnly = False\<rparr>
      (demo_world Map.empty []) =
      (CORERC_OK, demo_world (Map.empty(''v/SUPERBLK.1'' \<mapsto> demo_header)) [])"
    using demo_header_text
    by (simp add: writeSuperBlock1_def sb demo_env_sel fopen_w_def fput_def fclose_def
        pop_fault_def demo_world_def)
  show ?thesis
    by (simp add: coreWriteSuperBlock_def Let_def sb demo_env_sel w1)
       (simp add: fopen_w_def fput_def fclose_def pop_fault_def demo_world_def
          sysGetRandomBits_def draw_4 demo_buildSector demo_record_written_def demo_env_sel)
qed

text \<open>Which call fails: every fallible call takes the next entry of \<open>faults\<close>, so a block of
  \<open>n\<close> calls runs to its end exactly when the first \<open>n\<close> entries hold no \<open>True\<close>.\<close>

lemma writeSuperBlock1_result:
  assumes "writeSuperBlock1 env sb pParms w = (cr1, w1)"
  shows "cr1 =
      (if MAX_VOLUME_BASE_PATH_NAME env + 128 \<le> length (pszBasePath sb @ SUPERBLOCK1_NAME env)
       then CORERC_INVALID_PARAMETER
       else if True \<in> set (take 4 (faults w)) then CORERC_STORAGE else CORERC_OK)"
    and "cr1 = CORERC_OK \<Longrightarrow> faults w1 = drop 4 (faults w)"
  using assms
  by (auto simp: writeSuperBlock1_def fopen_w_def fput_def fclose_def pop_fault_def Let_def
      split: if_splits list.splits prod.splits bool.splits)

lemma record_calls_result:
  assumes "fopen_w name w1 = (ok2, w2)"
    and "sysGetRandomBits n w2 = (rnd, w3)"
    and "fput name bs w3 = (ok4, w4)"
    and "fclose w4 = (eof, w5)"
  shows "(ok2 \<and> ok4 \<and> \<not> eof) = (True \<notin> set (take 3 (faults w1)))"
  using assms
  by (auto simp: fopen_w_def fput_def fclose_def pop_fault_def sysGetRandomBits_def Let_def
      split: if_splits list.splits prod.splits bool.splits)

lemma coreWriteSuperBlock_result:
  assumes "coreWriteSuperBlock env sb flags w = (cr, sb', w')"
  shows "cr =
     (if fReadOnly (coreQueryVolumeParms env (pVolume sb)) then CORERC_READ_ONLY
      else if flags AND CWS_NOWRITE_SUPERBLOCK1 env = 0
            \<and> MAX_VOLUME_BASE_PATH_NAME env + 128 \<le> length (pszBasePath sb @ SUPERBLOCK1_NAME env)
        then CORERC_INVALID_PARAMETER
      else if flags AND CWS_NOWRITE_SUPERBLOCK1 env = 0 \<and> True \<in> set (take 4 (faults w))
        then CORERC_STORAGE
      else if MAX_VOLUME_BASE_PATH_NAME env + 128 \<le> length (pszBasePath sb @ SUPERBLOCK2_NAME env)
        then CORERC_INVALID_PARAMETER
      else if True \<in> set (take 3 (drop (if flags AND CWS_NOWRITE_SUPERBLOCK1 env = 0 then 4 else 0)
                                     (faults w)))
        then CORERC_STORAGE
      else CORERC_OK)"
proof -
  let ?p = "coreQueryVolumeParms env (pVolume sb)"
  let ?n = "pszBasePath sb @ SUPERBLOCK2_NAME env"
  let ?hdr = "flags AND CWS_NOWRITE_SUPERBLOCK1 env = 0"
  define r1 where "r1 = (if ?hdr then writeSuperBlock1 env sb ?p w else (CORERC_OK, w))"
  obtain cr1 w1 where r1: "r1 = (cr1, w1)" by (cases r1)
  have c1: "cr1 =
      (if ?hdr \<and> MAX_VOLUME_BASE_PATH_NAME env + 128 \<le> length (pszBasePath sb @ SUPERBLOCK1_NAME env)
       then CORERC_INVALID_PARAMETER
       else if ?hdr \<and> True \<in> set (take 4 (faults w)) then CORERC_STORAGE else CORERC_OK)"
    using r1 writeSuperBlock1_result(1) [of env sb ?p w cr1 w1]
    by (auto simp: r1_def split: if_splits)
  have f1: "faults w1 = drop (if ?hdr then 4 else 0) (faults w)" if "cr1 = CORERC_OK"
    using r1 that writeSuperBlock1_result(2) [of env sb ?p w cr1 w1]
    by (auto simp: r1_def split: if_splits)
  obtain ok2 w2 where r2: "fopen_w ?n w1 = (ok2, w2)" by (cases "fopen_w ?n w1")
  obtain rnd w3 where r3: "sysGetRandomBits (RANDOM_SIZE env * 8) w2 = (rnd, w3)"
    by (cases "sysGetRandomBits (RANDOM_SIZE env * 8) w2")
  let ?crypted = "coreEncryptSectorData env (buildSector env sb rnd) (pKey sb) (flCryptoFlags ?p)"
  obtain ok4 w4 where r4: "fput ?n ?crypted w3 = (ok4, w4)" by (cases "fput ?n ?crypted w3")
  obtain eof w5 where r5: "fclose w4 = (eof, w5)" by (cases "fclose w4")
  have calls: "(ok2 \<and> ok4 \<and> \<not> eof) = (True \<notin> set (take 3 (faults w1)))"
    by (rule record_calls_result [OF r2 r3 r4 r5])
  have "cr =
     (if fReadOnly ?p then CORERC_READ_ONLY
      else if cr1 \<noteq> CORERC_OK then cr1
      else if MAX_VOLUME_BASE_PATH_NAME env + 128 \<le> length ?n then CORERC_INVALID_PARAMETER
      else if ok2 \<and> ok4 \<and> \<not> eof then CORERC_OK else CORERC_STORAGE)"
    using assms r1 r2 r3 r4 r5 unfolding coreWriteSuperBlock_def Let_def r1_def [symmetric]
    by (auto split: prod.splits if_splits bool.splits)
  then show ?thesis
    unfolding calls using c1 f1 by (auto split: if_splits)
qed

lemma demo_int32_length: "\<forall>v. length (int32ToBytes demo_env v) = 4"
  by (simp add: demo_env_sel demo_int32ToBytes_def)

lemma demo_drawn: "drawn demo_env (demo_world fs flt) = [255, 255, 255, 255]"
  by (simp add: drawn_def demo_env_sel demo_world_def draw_4)

lemma demo_write_fault:
  "coreWriteSuperBlock demo_env demo_sb 0 (demo_world Map.empty [True]) =
     (CORERC_STORAGE, demo_sb, demo_world Map.empty [])"
proof -
  have sb: "pszBasePath demo_sb = ''v/''" "pVolume demo_sb = \<lparr>flCryptoFlags = 1, fReadOnly = False\<rparr>"
    by (simp_all add: demo_sb_def)
  have w1: "writeSuperBlock1 demo_env demo_sb \<lparr>flCryptoFlags = 1, fReadOnly = False\<rparr>
      (demo_world Map.empty [True]) = (CORERC_STORAGE, demo_world Map.empty [])"
    by (simp add: writeSuperBlock1_def sb demo_env_sel fopen_w_def pop_fault_def demo_world_def)
  show ?thesis
    by (simp add: coreWriteSuperBlock_def Let_def sb demo_env_sel w1)
qed

lemma demo_write_fclose_fault:
  "coreWriteSuperBlock demo_env demo_sb 0
       (demo_world Map.empty [False, False, False, False, False, False, True]) =
     (CORERC_STORAGE, demo_sb,
      \<lparr>files = (Map.empty(''v/SUPERBLK.1'' \<mapsto> demo_header))(''v/SUPERBLK.2'' \<mapsto> demo_record_written),
       faults = [], secure_blocks = 0, entropy = (\<lambda>i. 255), entropy_pos = 4\<rparr>)"
proof -
  have sb: "pszBasePath demo_sb = ''v/''" "pVolume demo_sb = \<lparr>flCryptoFlags = 1, fReadOnly = False\<rparr>"
    "pKey demo_sb = \<lparr>pCipher = \<lparr>pszID = ''toy''\<rparr>, cbKey = 8, cbBlock = 8, pKeyData = []\<rparr>"
    by (simp_all add: demo_sb_def)
  have w1: "writeSuperBlock1 demo_env demo_sb \<lparr>flCryptoFlags = 1, fReadOnly = False\<rparr>
      (demo_world Map.empty [False, False, False, False, False, False, True]) =
      (CORERC_OK, demo_world (Map.empty(''v/SUPERBLK.1'' \<mapsto> demo_header)) [False, False, True])"
    using demo_header_text
    by (simp add: writeSuperBlock1_def sb demo_env_sel fopen_w_def fput_def fclose_def
        pop_fault_def demo_world_def)
  show ?thesis
    by (simp add: coreWriteSuperBlock_def Let_def sb demo_env_sel w1)
       (simp add: fopen_w_def fput_def fclose_def pop_fault_def demo_world_def
          sysGetRandomBits_def draw_4 demo_buildSector demo_record_written_def demo_env_sel)
qed

lemma demo_sb_strings:
  "length (cstring (szLabel demo_sb)) < LABEL_SIZE demo_env"
  "length (cstring (szDescription demo_sb)) < DESCRIPTION_SIZE demo_env"
  by (simp_all add: demo_sb_def cstring_def demo_env_sel)

text \<open>
  C7: \<^verbatim>\<open>coreWriteSuperBlock\<close> returns \<open>CORERC_OK\<close> exactly when the volume is writable, the
  file names fit, and none of the library calls it makes fails: \<^verbatim>\<open>fopen\<close>, \<^verbatim>\<open>fprintf\<close>,
  \<^verbatim>\<open>fprintf\<close>, \<^verbatim>\<open>fclose\<close> for the header (unless \<open>CWS_NOWRITE_SUPERBLOCK1\<close> is set), then
  \<^verbatim>\<open>fopen\<close>, \<^verbatim>\<open>fwrite\<close>, \<^verbatim>\<open>fclose\<close> for the record; a failing call yields \<open>CORERC_STORAGE\<close>.
  A call that returns \<open>CORERC_OK\<close> leaves in the record file the encryption of a sector
  whose payload starts with the bytes of \<open>SUPERBLOCK2_MAGIC\<close> and of \<open>SBV_CURRENT\<close>, whatever
  magic and version the superblock held in memory, and sets the superblock's magic and
  version to these constants; every other call leaves the superblock as it was. (The
  label and the description of the superblock are NUL-terminated inside their arrays.)
\<close>

theorem coreWriteSuperBlock_stamps:
  assumes "coreWriteSuperBlock env sb flags w = (cr, sb', w')"
    and "\<forall>v. length (int32ToBytes env v) = 4"
    and "sizeof_SuperBlock2OnDisk env \<le> PAYLOAD_SIZE env"
    and "length (cstring (szLabel sb)) < LABEL_SIZE env"
    and "length (cstring (szDescription sb)) < DESCRIPTION_SIZE env"
  shows "cr =
          (if fReadOnly (coreQueryVolumeParms env (pVolume sb)) then CORERC_READ_ONLY
           else if flags AND CWS_NOWRITE_SUPERBLOCK1 env = 0
                 \<and> MAX_VOLUME_BASE_PATH_NAME env + 128
                     \<le> length (pszBasePath sb @ SUPERBLOCK1_NAME env)
             then CORERC_INVALID_PARAMETER
           else if flags AND CWS_NOWRITE_SUPERBLOCK1 env = 0 \<and> True \<in> set (take 4 (faults w))
             then CORERC_STORAGE
           else if MAX_VOLUME_BASE_PATH_NAME env + 128
                     \<le> length (pszBasePath sb @ SUPERBLOCK2_NAME env)
             then CORERC_INVALID_PARAMETER
           else if True \<in> set (take 3
                     (drop (if flags AND CWS_NOWRITE_SUPERBLOCK1 env = 0 then 4 else 0) (faults w)))
             then CORERC_STORAGE
           else CORERC_OK)
       \<and> (if cr = CORERC_OK
          then sb' = sb\<lparr>version := SBV_CURRENT env, magic := SUPERBLOCK2_MAGIC env\<rparr>
             \<and> files w' (pszBasePath sb @ SUPERBLOCK2_NAME env) =
                 Some (coreEncryptSectorData env (buildSector env sb (drawn env w)) (pKey sb)
                         (flCryptoFlags (coreQueryVolumeParms env (pVolume sb))))
          else sb' = sb)
       \<and> bytes_at 0 4 (payload (buildSector env sb (drawn env w))) =
           int32ToBytes env (SUPERBLOCK2_MAGIC env)
       \<and> bytes_at 4 4 (payload (buildSector env sb (drawn env w))) =
           int32ToBytes env (SBV_CURRENT env)
       \<and> buildSector env (sb\<lparr>magic := m, version := v\<rparr>) rnd = buildSector env sb rnd"
proof (intro conjI)
  show "cr =
          (if fReadOnly (coreQueryVolumeParms env (pVolume sb)) then CORERC_READ_ONLY
           else if flags AND CWS_NOWRITE_SUPERBLOCK1 env = 0
                 \<and> MAX_VOLUME_BASE_PATH_NAME env + 128
                     \<le> length (pszBasePath sb @ SUPERBLOCK1_NAME env)
             then CORERC_INVALID_PARAMETER
           else if flags AND CWS_NOWRITE_SUPERBLOCK1 env = 0 \<and> True \<in> set (take 4 (faults w))
             then CORERC_STORAGE
           else if MAX_VOLUME_BASE_PATH_NAME env + 128
                     \<le> length (pszBasePath sb @ SUPERBLOCK2_NAME env)
             then CORERC_INVALID_PARAMETER
           else if True \<in> set (take 3
                     (drop (if flags AND CWS_NOWRITE_SUPERBLOCK1 env = 0 then 4 else 0) (faults w)))
             then CORERC_STORAGE
           else CORERC_OK)"
    by (rule coreWriteSuperBlock_result [OF assms(1)])
next
  show "if cr = CORERC_OK
          then sb' = sb\<lparr>version := SBV_CURRENT env, magic := SUPERBLOCK2_MAGIC env\<rparr>
             \<and> files w' (pszBasePath sb @ SUPERBLOCK2_NAME env) =
                 Some (coreEncryptSectorData env (buildSector env sb (drawn env w)) (pKey sb)
                         (flCryptoFlags (coreQueryVolumeParms env (pVolume sb))))
          else sb' = sb"
    using coreWriteSuperBlock_succeeded [of env sb flags w sb' w']
      coreWriteSuperBlock_failed [of env sb flags w cr sb' w'] assms(1)
    by (cases "cr = CORERC_OK") simp_all
next
  let ?p = "payload (buildSector env sb (drawn env w))"
  have p8: "8 \<le> PAYLOAD_SIZE env"
    using assms(3)
    by (simp add: sizeof_SuperBlock2OnDisk_def description_offset_def label_offset_def)
  have h: "take 8 ?p = int32ToBytes env (SUPERBLOCK2_MAGIC env) @ int32ToBytes env (SBV_CURRENT env)"
    by (rule buildSector_head [OF assms(2) p8])
  have "take 4 ?p = take 4 (take 8 ?p)"
    by simp
  then show "bytes_at 0 4 ?p = int32ToBytes env (SUPERBLOCK2_MAGIC env)"
    unfolding h using assms(2) by (simp add: bytes_at_def)
  have "take 4 (drop 4 ?p) = drop 4 (take 8 ?p)"
    by (simp add: drop_take)
  then show "bytes_at 4 4 ?p = int32ToBytes env (SBV_CURRENT env)"
    unfolding h using assms(2) by (simp add: bytes_at_def)
next
  show "buildSector env (sb\<lparr>magic := m, version := v\<rparr>) rnd = buildSector env sb rnd"
    by (simp add: buildSector_def)
qed

theorem coreWriteSuperBlock_stamps_witness:
  "coreWriteSuperBlock demo_env demo_sb 0 (demo_world Map.empty []) =
     (CORERC_OK, demo_sb\<lparr>version := 2, magic := 7\<rparr>,
      \<lparr>files = (Map.empty(''v/SUPERBLK.1'' \<mapsto> demo_header))(''v/SUPERBLK.2'' \<mapsto> demo_record_written),
       faults = [], secure_blocks = 0, entropy = (\<lambda>i. 255), entropy_pos = 4\<rparr>)
   \<and> magic demo_sb = 0 \<and> version demo_sb = 1
   \<and> bytes_at 0 4 (payload (buildSector demo_env demo_sb [255, 255, 255, 255])) = [7, 0, 0, 0]
   \<and> bytes_at 4 4 (payload (buildSector demo_env demo_sb [255, 255, 255, 255])) = [2, 0, 0, 0]
   \<and> coreWriteSuperBlock demo_env demo_sb 0 (demo_world Map.empty [True]) =
     (CORERC_STORAGE, demo_sb, demo_world Map.empty [])
   \<and> coreWriteSuperBlock demo_env demo_sb 0
       (demo_world Map.empty [False, False, False, False, False, False, True]) =
     (CORERC_STORAGE, demo_sb,
      \<lparr>files = (Map.empty(''v/SUPERBLK.1'' \<mapsto> demo_header))(''v/SUPERBLK.2'' \<mapsto> demo_record_written),
       faults = [], secure_blocks = 0, entropy = (\<lambda>i. 255), entropy_pos = 4\<rparr>)
   \<and> True \<in> set (take 3 (drop 4
       (faults (demo_world Map.empty [False, False, False, False, False, False, True]))))"
proof -
  have a: "bytes_at 0 4 (payload (buildSector demo_env demo_sb [255, 255, 255, 255])) = [7, 0, 0, 0]
      \<and> bytes_at 4 4 (payload (buildSector demo_env demo_sb [255, 255, 255, 255])) = [2, 0, 0, 0]"
    using coreWriteSuperBlock_stamps [OF demo_write demo_int32_length demo_layout demo_sb_strings]
    by (simp add: demo_drawn demo_env_sel demo_int32ToBytes_def)
  have b: "magic demo_sb = 0 \<and> version demo_sb = 1"
    by (simp add: demo_sb_def)
  have c: "True \<in> set (take 3 (drop 4
      (faults (demo_world Map.empty [False, False, False, False, False, False, True]))))"
    using coreWriteSuperBlock_stamps
      [OF demo_write_fclose_fault demo_int32_length demo_layout demo_sb_strings]
    by (simp add: demo_world_def)
  show ?thesis
    using a b c demo_write demo_write_fault demo_write_fclose_fault by simp
qed

text \<open>
  C2, as the claim states it, fails: with a random source that yields the byte 255 for
  ever, the write succeeds, the four random bytes are in \<^verbatim>\<open>sector.random\<close>, and the payload
  bytes behind the description (here the last four) are 0.
\<close>

theorem coreWriteSuperBlock_padding_counterexample:
  "coreWriteSuperBlock demo_env demo_sb 0 (demo_world Map.empty []) =
     (CORERC_OK, demo_sb\<lparr>version := 2, magic := 7\<rparr>,
      \<lparr>files = (Map.empty(''v/SUPERBLK.1'' \<mapsto> demo_header))(''v/SUPERBLK.2'' \<mapsto> demo_record_written),
       faults = [], secure_blocks = 0, entropy = (\<lambda>i. 255), entropy_pos = 4\<rparr>)
   \<and> drawn demo_env (demo_world Map.empty []) = [255, 255, 255, 255]
   \<and> sizeof_SuperBlock2OnDisk demo_env = 28
   \<and> drop 28 (payload (buildSector demo_env demo_sb [255, 255, 255, 255])) = [0, 0, 0, 0]
   \<and> drop (4 + 28) demo_record_written = [0, 0, 0, 0]"
  by (simp add: demo_write demo_drawn demo_buildSector demo_record_written_def
      sizeof_SuperBlock2OnDisk_def description_offset_def label_offset_def demo_env_sel)

text \<open>
  C2, amended: for every successful \<^verbatim>\<open>coreWriteSuperBlock\<close> call on a superblock whose label
  and description hold a NUL inside their arrays, the sector that is encrypted and written
  has the random bytes in its member \<^verbatim>\<open>random\<close>, and the payload bytes behind the six
  fields are all 0 (the payload is cleared before the fields are stored), whatever the
  random source yields.
\<close>

theorem coreWriteSuperBlock_padding:
  assumes "coreWriteSuperBlock env sb flags w = (CORERC_OK, sb', w')"
    and "\<forall>v. length (int32ToBytes env v) = 4"
    and "sizeof_SuperBlock2OnDisk env \<le> PAYLOAD_SIZE env"
    and "length (cstring (szLabel sb)) < LABEL_SIZE env"
    and "length (cstring (szDescription sb)) < DESCRIPTION_SIZE env"
  shows "files w' (pszBasePath sb @ SUPERBLOCK2_NAME env) =
           Some (coreEncryptSectorData env (buildSector env sb (drawn env w)) (pKey sb)
                   (flCryptoFlags (coreQueryVolumeParms env (pVolume sb))))
       \<and> sector_random (buildSector env sb (drawn env w)) = drawn env w
       \<and> length (payload (buildSector env sb (drawn env w))) = PAYLOAD_SIZE env
       \<and> drop (sizeof_SuperBlock2OnDisk env) (payload (buildSector env sb (drawn env w))) =
           replicate (PAYLOAD_SIZE env - sizeof_SuperBlock2OnDisk env) 0"
  using coreWriteSuperBlock_succeeded(2) [OF assms(1)] buildSector_tail [OF assms(2-5)]
  by (simp add: buildSector_def)

theorem coreWriteSuperBlock_padding_witness:
  "files (snd (snd (coreWriteSuperBlock demo_env demo_sb 0 (demo_world Map.empty []))))
       ''v/SUPERBLK.2'' =
     Some (coreEncryptSectorData demo_env (buildSector demo_env demo_sb [255, 255, 255, 255])
             (pKey demo_sb) 1)
   \<and> sector_random (buildSector demo_env demo_sb [255, 255, 255, 255]) = [255, 255, 255, 255]
   \<and> length (payload (buildSector demo_env demo_sb [255, 255, 255, 255])) = 32
   \<and> drop 28 (payload (buildSector demo_env demo_sb [255, 255, 255, 255])) = replicate 4 0"
proof -
  have l: "sizeof_SuperBlock2OnDisk demo_env \<le> PAYLOAD_SIZE demo_env"
    by (rule demo_layout)
  have s: "sizeof_SuperBlock2OnDisk demo_env = 28"
    by (simp add: sizeof_SuperBlock2OnDisk_def description_offset_def label_offset_def demo_env_sel)
  have c1: "length (cstring (szLabel demo_sb)) < LABEL_SIZE demo_env"
    by (simp add: cstring_def demo_sb_def demo_env_sel)
  have c2: "length (cstring (szDescription demo_sb)) < DESCRIPTION_SIZE demo_env"
    by (simp add: cstring_def demo_sb_def demo_env_sel)
  have v: "flCryptoFlags (coreQueryVolumeParms demo_env (pVolume demo_sb)) = 1"
    by (simp add: demo_env_sel demo_sb_def)
  have n: "pszBasePath demo_sb @ SUPERBLOCK2_NAME demo_env = ''v/SUPERBLK.2''"
    by (simp add: demo_env_sel demo_sb_def)
  have p: "PAYLOAD_SIZE demo_env = 32"
    by (simp add: demo_env_sel)
  show ?thesis
    using coreWriteSuperBlock_padding [OF demo_write demo_int32_length l c1 c2]
    unfolding n p s v demo_drawn by (simp add: demo_write)
qed

subsection \<open>Lines of the plaintext header\<close>

text \<open>Lines that sscanf does not read as "name: value", and lines with another name than
  \<^verbatim>\<open>cipher\<close> and \<^verbatim>\<open>use-cbc\<close>, change nothing; nor does a \<^verbatim>\<open>cipher\<close> line whose value starts
  with the dash.\<close>

lemma readSuperBlock1_line_no_pair:
  "fst (sscanf_name_value (c_str szLine)) \<noteq> 2 \<Longrightarrow> readSuperBlock1_line env szLine h = h"
  by (cases "sscanf_name_value (c_str szLine)") (simp add: readSuperBlock1_line_def)

lemma readSuperBlock1_line_other_name:
  "sscanf_name_value (c_str szLine) = (n, name, val) \<Longrightarrow> name \<noteq> ''cipher'' \<Longrightarrow>
   name \<noteq> ''use-cbc'' \<Longrightarrow> readSuperBlock1_line env szLine h = h"
  by (simp add: readSuperBlock1_line_def)

lemma readSuperBlock1_line_no_id:
  "sscanf_name_value (c_str szLine) = (2, ''cipher'', CHR ''-'' # val) \<Longrightarrow>
   readSuperBlock1_line env szLine h = h"
  by (simp add: readSuperBlock1_line_def sscanf_cipher_def)

lemma sscanf_cipher_bogus: "sscanf_name_value (c_str (''cipher: bogus'' @ [CHR 0x0A])) = (2, ''cipher'', ''bogus'')"
  by code_simp

lemma sscanf_cipher_des: "sscanf_name_value (c_str (''cipher: des-64'' @ [CHR 0x0A])) = (2, ''cipher'', ''des-64'')"
  by code_simp

lemma scan_d_64: "scan_d ''64'' = Some (64, [])"
  by code_simp

lemma demo_header_bogus_lines:
  "readSuperBlock1_lines demo_env (text_of demo_header_bogus)
     \<lparr>szCipher = [], hdr_cbKey = 0, hdr_cbBlock = 0, hdr_parms = demo_parms\<rparr> =
   \<lparr>szCipher = ''bogus'', hdr_cbKey = 8, hdr_cbBlock = 8, hdr_parms = demo_parms\<rparr>"
  by code_simp

text \<open>
  C8 does not hold of the code. A \<^verbatim>\<open>cipher\<close> line whose value is an id without sizes, or an
  id and one size, makes the second sscanf return less than 3, and the loop goes on to the
  next line; but sscanf has stored the items it converted: \<^verbatim>\<open>szCipher\<close> holds the id of the
  malformed line, and \<^verbatim>\<open>cbKey\<close> its first number, in bits. With the header
  \<^verbatim>\<open>cipher: toy-64-64\<close>, \<^verbatim>\<open>cipher: bogus\<close> and the cipher \<^verbatim>\<open>toy\<close> in the registry, the open
  fails with \<open>CORERC_UNKNOWN_CIPHER\<close>.
\<close>

theorem readSuperBlock1_line_malformed_cipher:
  "readSuperBlock1_line env (''cipher: bogus'' @ [CHR 0x0A]) h = h\<lparr>szCipher := ''bogus''\<rparr>
   \<and> readSuperBlock1_line env (''cipher: des-64'' @ [CHR 0x0A]) h =
       h\<lparr>szCipher := ''des'', hdr_cbKey := 64\<rparr>
   \<and> coreReadSuperBlock demo_env ''v/'' ''secret'' [\<lparr>pszID = ''toy''\<rparr>] demo_parms
       (demo_world (Map.empty(''v/SUPERBLK.1'' \<mapsto> demo_header_bogus)) []) =
     Some (CORERC_UNKNOWN_CIPHER, None, demo_parms,
       demo_world (Map.empty(''v/SUPERBLK.1'' \<mapsto> demo_header_bogus)) [])"
proof (intro conjI)
  show "readSuperBlock1_line env (''cipher: bogus'' @ [CHR 0x0A]) h = h\<lparr>szCipher := ''bogus''\<rparr>"
    unfolding readSuperBlock1_line_def sscanf_cipher_bogus
    by (simp add: sscanf_cipher_def)
  show "readSuperBlock1_line env (''cipher: des-64'' @ [CHR 0x0A]) h =
      h\<lparr>szCipher := ''des'', hdr_cbKey := 64\<rparr>"
    unfolding readSuperBlock1_line_def sscanf_cipher_des
    by (simp add: sscanf_cipher_def scan_d_64)
  let ?w = "demo_world (Map.empty(''v/SUPERBLK.1'' \<mapsto> demo_header_bogus)) []"
  let ?w1 = "?w\<lparr>secure_blocks := 1\<rparr>"
  let ?h = "\<lparr>szCipher = ''bogus'', hdr_cbKey = 8, hdr_cbBlock = 8, hdr_parms = demo_parms\<rparr>"
  have h1: "sysAllocSecureMem ?w = (True, ?w1)"
    by (simp add: sysAllocSecureMem_def pop_fault_def demo_world_def)
  have h2: "length ''v/'' + length (SUPERBLOCK1_NAME demo_env)
      < MAX_VOLUME_BASE_PATH_NAME demo_env + 128"
    by (simp add: demo_env_sel)
  have h3: "fopen_r (''v/'' @ SUPERBLOCK1_NAME demo_env) ?w1 = (Some demo_header_bogus, ?w1)"
    by (simp add: fopen_r_def pop_fault_def demo_world_def demo_env_sel)
  have h4: "fclose ?w1 = (False, ?w1)"
    by (simp add: fclose_def pop_fault_def demo_world_def)
  have h5: "?h = readSuperBlock1_lines demo_env (text_of demo_header_bogus)
      \<lparr>szCipher = [], hdr_cbKey = 0, hdr_cbBlock = 0, hdr_parms = demo_parms\<rparr>"
    by (simp add: demo_header_bogus_lines)
  have h6: "findCipher [\<lparr>pszID = ''toy''\<rparr>] (szCipher ?h) = None"
    by simp
  have fr: "sysFreeSecureMem ?w1 = ?w"
    by (simp add: sysFreeSecureMem_def demo_world_def)
  show "coreReadSuperBlock demo_env ''v/'' ''secret'' [\<lparr>pszID = ''toy''\<rparr>] demo_parms ?w =
      Some (CORERC_UNKNOWN_CIPHER, None, demo_parms, ?w)"
    using open_unknown_cipher_result [OF demo_layout h1 h2 h3 h4 h5 h6, of "''secret''"] fr
    by simp
qed

end
